theory Spec2Isabelle
  imports Complex_Main "HOL-Library.Sublist"
begin

section \<open>Strings\<close>

text \<open>
  A Python \<open>str\<close> is a sequence of Unicode code points, and is modelled as the list of
  their numbers. \<open>cps\<close> gives the code points of a text written in ASCII.
\<close>

type_synonym str = "nat list"

abbreviation cp :: "char \<Rightarrow> nat" where
  "cp \<equiv> of_char"

definition cps :: "string \<Rightarrow> str" where
  "cps s = map cp s"

text \<open>\<open>sub in s\<close>: the first position where \<open>sub\<close> starts, if any.\<close>

fun contains :: "str \<Rightarrow> str \<Rightarrow> bool" where
  "contains sub [] = (sub = [])"
| "contains sub (c # s) = (prefix sub (c # s) \<or> contains sub s)"

text \<open>
  \<open>str.lower()\<close>, one code point at a time. It is exact on ASCII, where \<open>A\<close> to \<open>Z\<close>
  move to \<open>a\<close> to \<open>z\<close>, and on the only two other code points whose lower case holds an
  ASCII character: U+0130 gives \<open>i\<close> followed by U+0307, and U+212A gives \<open>k\<close>. Every
  other code point is left as it stands: the lower case of such a letter is again text
  outside ASCII, so the ASCII characters of the result, and which of them are adjacent,
  are those of \<open>str.lower()\<close>.
\<close>

definition lower_char :: "nat \<Rightarrow> str" where
  "lower_char c =
     (if 65 \<le> c \<and> c \<le> 90 then [c + 32]
      else if c = 0x130 then [0x69, 0x307]
      else if c = 0x212A then [0x6B]
      else [c])"

definition lower :: "str \<Rightarrow> str" where
  "lower s = concat (map lower_char s)"

text \<open>\<open>sep.join(xs)\<close>.\<close>

fun join :: "str \<Rightarrow> str list \<Rightarrow> str" where
  "join sep [] = []"
| "join sep [x] = x"
| "join sep (x # y # xs) = x @ sep @ join sep (y # xs)"

section \<open>Regular expressions\<close>

text \<open>
  The fragment of Python's \<open>re\<close> syntax that the two patterns of the program use:
  literal text, a greedy run \<open>[^...]+\<close> of characters outside a set, a greedy optional
  part \<open>(?:...)?\<close>, concatenation, and a capturing group \<open>(...)\<close>.
\<close>

datatype regex =
    Lit str
  | Neg_Plus "nat list"
  | Opt regex
  | Seq regex regex
  | Grp regex

text \<open>
  \<open>run cs s\<close>: what is left of \<open>s\<close> after \<open>[^cs]+\<close>, in the order a backtracking matcher
  tries: the longest run first, then one character less, down to a single character.
\<close>

fun run :: "nat list \<Rightarrow> str \<Rightarrow> str list" where
  "run cs [] = []"
| "run cs (c # s) = (if c \<in> set cs then [] else run cs s @ [s])"

text \<open>
  \<open>matches r s\<close>: every way \<open>r\<close> matches at the start of \<open>s\<close>, in the matcher's order of
  preference, each as the captured groups (by group number) and the rest of the input.
\<close>

fun matches :: "regex \<Rightarrow> str \<Rightarrow> (str list \<times> str) list" where
  "matches (Lit l) s = (if prefix l s then [([], drop (length l) s)] else [])"
| "matches (Neg_Plus cs) s = map (Pair []) (run cs s)"
| "matches (Opt r) s = matches r s @ [([], s)]"
| "matches (Seq a b) s =
     concat (map (\<lambda>(g1, s1). map (\<lambda>(g2, s2). (g1 @ g2, s2)) (matches b s1)) (matches a s))"
| "matches (Grp r) s =
     map (\<lambda>(g, s'). (take (length s - length s') s # g, s')) (matches r s)"

text \<open>A match object: \<open>group(0)\<close> and the numbered groups.\<close>

record match_obj =
  group0 :: str
  groups :: "str list"

text \<open>\<open>re.match(pattern, s)\<close>: the preferred match at the start of \<open>s\<close>.\<close>

definition re_match :: "regex \<Rightarrow> str \<Rightarrow> match_obj option" where
  "re_match r s =
     (case matches r s of
        [] \<Rightarrow> None
      | (g, rest) # _ \<Rightarrow> Some \<lparr>group0 = take (length s - length rest) s, groups = g\<rparr>)"

text \<open>\<open>re.search(pattern, s)\<close>: the match at the leftmost position that has one.\<close>

fun re_search :: "regex \<Rightarrow> str \<Rightarrow> match_obj option" where
  "re_search r [] = re_match r []"
| "re_search r (c # s) =
     (case re_match r (c # s) of
        Some m \<Rightarrow> Some m
      | None \<Rightarrow> re_search r s)"

datatype py_error = IndexError | KeyError | TypeError | AttributeError

text \<open>\<open>m.group(n)\<close> for \<open>n \<ge> 1\<close>; a group the pattern does not have raises.\<close>

definition group :: "match_obj \<Rightarrow> nat \<Rightarrow> py_error + str" where
  "group m n =
     (if 1 \<le> n \<and> n \<le> length (groups m) then Inr (groups m ! (n - 1)) else Inl IndexError)"

section \<open>The URL parser\<close>

text \<open>
  The code points that \<open>\s\<close> matches in a \<open>str\<close> pattern: \<open>\t\n\v\f\r\<close>, U+001C to
  U+001F, the space, U+0085, U+00A0, U+1680, U+2000 to U+200A, U+2028, U+2029, U+202F,
  U+205F and U+3000.
\<close>

definition whitespace :: "nat list" where
  "whitespace =
     [0x09, 0x0A, 0x0B, 0x0C, 0x0D, 0x1C, 0x1D, 0x1E, 0x1F, 0x20, 0x85, 0xA0, 0x1680,
      0x2000, 0x2001, 0x2002, 0x2003, 0x2004, 0x2005, 0x2006, 0x2007, 0x2008, 0x2009,
      0x200A, 0x2028, 0x2029, 0x202F, 0x205F, 0x3000]"

text \<open>\<open>(?:https?://)?(?:www\.)?github\.com/([^/]+)/([^/\.]+)(?:\.git)?\<close>\<close>

definition parse_pattern :: regex where
  "parse_pattern =
     Seq (Opt (Seq (Lit (cps ''http'')) (Seq (Opt (Lit (cps ''s''))) (Lit (cps ''://'')))))
    (Seq (Opt (Lit (cps ''www.'')))
    (Seq (Lit (cps ''github.com/''))
    (Seq (Grp (Neg_Plus (cps ''/'')))
    (Seq (Lit (cps ''/''))
    (Seq (Grp (Neg_Plus (cps ''/.'')))
         (Opt (Lit (cps ''.git''))))))))"

record repo_info =
  owner :: str
  repo :: str

definition parse_github_url :: "str \<Rightarrow> py_error + repo_info option" where
  "parse_github_url url =
     (case re_match parse_pattern url of
        Some m \<Rightarrow>
          (case group m 1 of
             Inl e \<Rightarrow> Inl e
           | Inr g1 \<Rightarrow>
               (case group m 2 of
                  Inl e \<Rightarrow> Inl e
                | Inr g2 \<Rightarrow> Inr (Some \<lparr>owner = g1, repo = g2\<rparr>)))
      | None \<Rightarrow> Inr None)"

section \<open>The backends\<close>

text \<open>
  A decoded JSON body, as far as the program looks into one: an array of repository
  entries, each with its name, path and type as text, or an object with text fields
  (given by its keys and their values). Bodies of any other shape are not modelled.
\<close>

record entry =
  name :: str
  path :: str
  type :: str

datatype json = Array "entry list" | Object "(str \<times> str) list"

text \<open>
  What a \<open>requests\<close> call comes to: it raises (with the text of the exception), or it
  returns a response with a status code and a body; \<open>response.json()\<close> raises on a body
  that is not JSON (\<open>Inl\<close>, with the text of the exception).
\<close>

datatype http_result = Raised str | Response nat "str + json"

text \<open>The two backends: the GitHub contents API by URL, the model API by prompt.\<close>

record world =
  github_get :: "str \<Rightarrow> http_result"
  llama_post :: "str \<Rightarrow> http_result"

text \<open>\<open>str(n)\<close> of a status code.\<close>

definition digit_char :: "nat \<Rightarrow> nat" where
  "digit_char d = 48 + d"

function str_nat :: "nat \<Rightarrow> str" where
  "str_nat n = (if n < 10 then [digit_char n] else str_nat (n div 10) @ [digit_char (n mod 10)])"
  by pat_completeness auto
termination
  by (relation "measure id") auto

declare str_nat.simps [simp del]

text \<open>The text of the exception that \<open>.get\<close> on a decoded JSON array raises.\<close>

definition no_get :: str where
  "no_get = [0x27] @ cps ''list'' @ [0x27] @ cps '' object has no attribute ''
          @ [0x27] @ cps ''get'' @ [0x27]"

definition query_llama :: "world \<Rightarrow> str \<Rightarrow> str" where
  "query_llama w text =
     (case llama_post w text of
        Raised e \<Rightarrow> cps ''Error: '' @ e
      | Response status_code body \<Rightarrow>
          if status_code = 200 then
            (case body of
               Inl e \<Rightarrow> cps ''Error: '' @ e
             | Inr (Object result) \<Rightarrow>
                 (case map_of result (cps ''response'') of
                    Some r \<Rightarrow> r
                  | None \<Rightarrow> cps ''No response from model'')
             | Inr (Array _) \<Rightarrow> cps ''Error: '' @ no_get)
          else cps ''Error querying model: '' @ str_nat status_code)"

definition list_github_repo_files :: "world \<Rightarrow> str \<Rightarrow> str \<Rightarrow> str \<Rightarrow> json" where
  "list_github_repo_files w owner' repo' path' =
     (let url = cps ''https://api.github.com/repos/'' @ owner' @ cps ''/'' @ repo' @ cps ''/contents/'' @ path'
      in case github_get w url of
           Raised e \<Rightarrow> Object [(cps ''error'', e)]
         | Response status_code body \<Rightarrow>
             if status_code = 200 then
               (case body of
                  Inl e \<Rightarrow> Object [(cps ''error'', e)]
                | Inr contents \<Rightarrow> contents)
             else
               (case body of
                  Inl e \<Rightarrow> Object [(cps ''error'', e)]
                | Inr (Object d) \<Rightarrow>
                    Object [(cps ''error'',
                      case map_of d (cps ''message'') of
                        Some m \<Rightarrow> m
                      | None \<Rightarrow> cps ''Error: Status code '' @ str_nat status_code)]
                | Inr (Array _) \<Rightarrow> Object [(cps ''error'', no_get)]))"

section \<open>The context endpoint\<close>

record context_request =
  query_text :: str
  user_id :: "str option"
  session_id :: "str option"
  additional_context :: "(str \<times> str) list option"

record context_element =
  content :: str
  source :: str
  relevance_score :: real

datatype meta_value = Int_Val int | Str_Val str

record context_response =
  context_elements :: "context_element list"
  metadata :: "str \<rightharpoonup> meta_value"

text \<open>\<open>https?://(?:www\.)?github\.com/[^/\s]+/[^/\s]+\<close>\<close>

definition url_pattern :: regex where
  "url_pattern =
     Seq (Lit (cps ''http''))
    (Seq (Opt (Lit (cps ''s'')))
    (Seq (Lit (cps ''://''))
    (Seq (Opt (Lit (cps ''www.'')))
    (Seq (Lit (cps ''github.com/''))
    (Seq (Neg_Plus (cp (CHR ''/'') # whitespace))
    (Seq (Lit (cps ''/''))
         (Neg_Plus (cp (CHR ''/'') # whitespace))))))))"

text \<open>The keyword test, the same expression in the server and in the client.\<close>

definition github_request :: "str \<Rightarrow> bool" where
  "github_request q \<longleftrightarrow>
     contains (cps ''github'') (lower q) \<and> (contains (cps ''list'') (lower q) \<or> contains (cps ''files'') (lower q))"

text \<open>\<open>"error" in files_data\<close>: a key of an object; never an element of an array of entries.\<close>

fun has_error :: "json \<Rightarrow> bool" where
  "has_error (Array es) = False"
| "has_error (Object d) = (cps ''error'' \<in> fst ` set d)"

text \<open>The two markers, U+1F4C4 and U+1F4C1, each followed by a space.\<close>

definition file_marker :: str where
  "file_marker = [0x1F4C4, 0x20]"

definition folder_marker :: str where
  "folder_marker = [0x1F4C1, 0x20]"

text \<open>
  The loop of \<open>get_context\<close> over the entries, on the pair \<open>(file_list, directory_list)\<close>.
\<close>

fun context_loop :: "entry list \<Rightarrow> str list \<times> str list \<Rightarrow> str list \<times> str list" where
  "context_loop [] acc = acc"
| "context_loop (item # items) (file_list, directory_list) =
     (if type item = cps ''file''
      then context_loop items (file_list @ [file_marker @ name item], directory_list)
      else context_loop items (file_list, directory_list @ [folder_marker @ name item]))"

text \<open>
  Iterating over an object gives its keys, and indexing a key by \<open>"type"\<close> raises; an
  object without keys gives nothing to iterate over.
\<close>

definition context_items :: "json \<Rightarrow> py_error + str list" where
  "context_items files_data =
     (case files_data of
        Array items \<Rightarrow>
          (let (file_list, directory_list) = context_loop items ([], [])
           in Inr (directory_list @ file_list))
      | Object d \<Rightarrow> if d = [] then Inr [] else Inl TypeError)"

definition prompt_of :: "nat \<Rightarrow> str \<Rightarrow> str" where
  "prompt_of indent q =
     cps ''Please provide relevant information for the following query: '' @ [0x0A]
     @ replicate indent 0x20 @ q @ [0x0A]
     @ replicate indent 0x20 @ [0x0A]
     @ replicate indent 0x20 @ cps ''Respond with factual, helpful information.''"

definition llama_elements :: "str \<Rightarrow> context_element list" where
  "llama_elements llama_response =
     [\<lparr>content = llama_response, source = cps ''llama_model'', relevance_score = 0.9\<rparr>]"

definition github_elements :: "world \<Rightarrow> repo_info \<Rightarrow> py_error + context_element list" where
  "github_elements w repo_info =
     (let files_data = list_github_repo_files w (owner repo_info) (repo repo_info) []
      in if \<not> has_error files_data then
           (case context_items files_data of
              Inl e \<Rightarrow> Inl e
            | Inr all_items \<Rightarrow>
                Inr [\<lparr>content =
                        cps ''Repository: '' @ owner repo_info @ cps ''/'' @ repo repo_info
                        @ [0x0A, 0x0A]
                        @ cps ''Files and directories:'' @ [0x0A] @ join [0x0A] all_items,
                      source = cps ''github_api'',
                      relevance_score = 0.95\<rparr>])
         else
           (case files_data of
              Object d \<Rightarrow>
                Inr [\<lparr>content =
                        cps ''Error accessing GitHub repository: ''
                        @ (case map_of d (cps ''error'') of
                             Some error_msg \<Rightarrow> error_msg
                           | None \<Rightarrow> cps ''Unknown error when accessing GitHub repository''),
                      source = cps ''github_api_error'',
                      relevance_score = 0.9\<rparr>]
            | Array _ \<Rightarrow> Inl AttributeError))"

definition invalid_url_elements :: "context_element list" where
  "invalid_url_elements =
     [\<lparr>content = cps ''The GitHub URL provided is not valid. Please provide a URL in the format: ''
                 @ cps ''https://github.com/owner/repo'',
       source = cps ''github_url_parser'',
       relevance_score = 0.9\<rparr>]"

definition get_context_elements :: "world \<Rightarrow> str \<Rightarrow> py_error + context_element list" where
  "get_context_elements w q =
     (if github_request q then
        (case re_search url_pattern q of
           Some url_match \<Rightarrow>
             (case parse_github_url (group0 url_match) of
                Inl e \<Rightarrow> Inl e
              | Inr (Some repo_info) \<Rightarrow> github_elements w repo_info
              | Inr None \<Rightarrow> Inr invalid_url_elements)
         | None \<Rightarrow> Inr (llama_elements (query_llama w (prompt_of 12 q))))
      else Inr (llama_elements (query_llama w (prompt_of 8 q))))"

definition get_context :: "world \<Rightarrow> context_request \<Rightarrow> py_error + context_response" where
  "get_context w request =
     (case get_context_elements w (query_text request) of
        Inl e \<Rightarrow> Inl e
      | Inr elements \<Rightarrow>
          Inr \<lparr>context_elements = elements,
               metadata = [cps ''processing_time_ms'' \<mapsto> Int_Val 150,
                           cps ''query'' \<mapsto> Str_Val (query_text request)]\<rparr>)"

section \<open>The listing endpoint\<close>

record list_files_response =
  files :: "str list"
  repository :: str
  resp_owner :: str
  success :: bool
  message :: "str option"

text \<open>The loop of \<open>list_files\<close> over the entries, on \<open>file_list\<close>.\<close>

fun list_files_loop :: "entry list \<Rightarrow> str list \<Rightarrow> str list" where
  "list_files_loop [] file_list = file_list"
| "list_files_loop (item # items) file_list =
     (let file_type_prefix = (if type item = cps ''dir'' then folder_marker else file_marker)
      in list_files_loop items (file_list @ [file_type_prefix @ path item]))"

definition list_files :: "world \<Rightarrow> str \<Rightarrow> py_error + list_files_response" where
  "list_files w repo_url =
     (case parse_github_url repo_url of
        Inl e \<Rightarrow> Inl e
      | Inr None \<Rightarrow>
          Inr \<lparr>files = [], repository = [], resp_owner = [], success = False,
               message = Some (cps ''Invalid GitHub repository URL. Please provide a URL in ''
                               @ cps ''the format: https://github.com/owner/repo'')\<rparr>
      | Inr (Some repo_info) \<Rightarrow>
          (let files_data = list_github_repo_files w (owner repo_info) (repo repo_info) []
           in if has_error files_data then
                (case files_data of
                   Object d \<Rightarrow>
                     (case map_of d (cps ''error'') of
                        Some e \<Rightarrow>
                          Inr \<lparr>files = [], repository = repo repo_info,
                               resp_owner = owner repo_info, success = False,
                               message = Some (cps ''Error accessing repository: '' @ e)\<rparr>
                      | None \<Rightarrow> Inl KeyError)
                 | Array _ \<Rightarrow> Inl TypeError)
              else
                (case files_data of
                   Array items \<Rightarrow>
                     Inr \<lparr>files = list_files_loop items [], repository = repo repo_info,
                          resp_owner = owner repo_info, success = True, message = None\<rparr>
                 | Object d \<Rightarrow>
                     if d = [] then
                       Inr \<lparr>files = [], repository = repo repo_info,
                            resp_owner = owner repo_info, success = True, message = None\<rparr>
                     else Inl TypeError)))"

section \<open>The client\<close>

text \<open>
  The two calls of the client to the server: each raises a \<open>RequestException\<close> (\<open>Inl\<close>,
  with its text; a status of 400 or more is one, through \<open>raise_for_status\<close>) or returns
  the decoded response of the endpoint.
\<close>

record net =
  post_context :: "str \<Rightarrow> str + context_response"
  post_list_files :: "str \<Rightarrow> str + list_files_response"

text \<open>
  What the two methods of \<open>ModelContextClient\<close> return: the response, or the dictionaries
  \<open>{"error": str(e)}\<close> and \<open>{"error": str(e), "success": False}\<close>.
\<close>

datatype context_data = Context_Error str | Context_Ok context_response

datatype list_result = List_Error str | List_Ok list_files_response

definition client_get_context :: "net \<Rightarrow> str \<Rightarrow> context_data" where
  "client_get_context n query_text' =
     (case post_context n query_text' of
        Inl e \<Rightarrow> Context_Error e
      | Inr response \<Rightarrow> Context_Ok response)"

definition list_github_files :: "net \<Rightarrow> str \<Rightarrow> list_result" where
  "list_github_files n repo_url =
     (case post_list_files n repo_url of
        Inl e \<Rightarrow> List_Error e
      | Inr response \<Rightarrow> List_Ok response)"

text \<open>\<open>result.get("success", False)\<close>\<close>

fun get_success :: "list_result \<Rightarrow> bool" where
  "get_success (List_Error e) = False"
| "get_success (List_Ok r) = success r"

text \<open>
  \<open>result.get('message', 'Unknown error')\<close> inside an f-string: the key is missing from the
  error dictionary, and a \<open>null\<close> message is formatted as \<open>None\<close>.
\<close>

fun get_message :: "list_result \<Rightarrow> str" where
  "get_message (List_Error e) = cps ''Unknown error''"
| "get_message (List_Ok r) = (case message r of Some m \<Rightarrow> m | None \<Rightarrow> cps ''None'')"

definition apology_list :: str where
  "apology_list = cps ''Sorry, I couldn'' @ [0x27] @ cps ''t list the GitHub repository files: ''"

definition no_information :: str where
  "no_information =
     cps ''I couldn'' @ [0x27] @ cps ''t retrieve any information about the GitHub repository.''"

definition apology_generic :: str where
  "apology_generic =
     cps ''Sorry, I couldn'' @ [0x27] @ cps ''t generate a proper response due to: ''"

definition not_enough :: str where
  "not_enough = cps ''I don'' @ [0x27] @ cps ''t have enough information to answer that question.''"

text \<open>The branch of \<open>generate_response\<close> that uses the dedicated endpoint.\<close>

definition github_response :: "net \<Rightarrow> str \<Rightarrow> str \<Rightarrow> str" where
  "github_response n user_query github_url =
     (let result = list_github_files n github_url
      in if get_success result then
           (case result of
              List_Ok r \<Rightarrow>
                if files r \<noteq> [] then
                  (cps ''Files in '') @ resp_owner r @ cps ''/'' @ repository r @ cps '':''
                  @ [0x0A, 0x0A] @ join [0x0A] (files r)
                else
                  (cps ''The repository '') @ resp_owner r @ cps ''/'' @ repository r
                  @ cps '' appears to be empty.''
            | List_Error e \<Rightarrow> [])
         else
           (case client_get_context n user_query of
              Context_Error e \<Rightarrow> apology_list @ get_message result
            | Context_Ok context \<Rightarrow>
                (case context_elements context of
                   [] \<Rightarrow> no_information
                 | element # _ \<Rightarrow> content element)))"

text \<open>The branch that uses the context endpoint only.\<close>

definition generic_response :: "net \<Rightarrow> str \<Rightarrow> str" where
  "generic_response n user_query =
     (case client_get_context n user_query of
        Context_Error e \<Rightarrow> apology_generic @ e
      | Context_Ok context \<Rightarrow>
          (case context_elements context of
             [] \<Rightarrow> not_enough
           | element # _ \<Rightarrow> content element))"

definition generate_response :: "net \<Rightarrow> str \<Rightarrow> str" where
  "generate_response n user_query =
     (let github_url_match = re_search url_pattern user_query
      in case github_url_match of
           Some m \<Rightarrow>
             if github_request user_query then github_response n user_query (group0 m)
             else generic_response n user_query
         | None \<Rightarrow> generic_response n user_query)"

text \<open>The test of \<open>generate_response\<close>, which the nested tests of \<open>get_context\<close> repeat.\<close>

definition listing_intent :: "str \<Rightarrow> bool" where
  "listing_intent q \<longleftrightarrow> github_request q \<and> re_search url_pattern q \<noteq> None"

section \<open>The specification's notions\<close>

text \<open>The language of a pattern: the texts it matches as a whole.\<close>

primrec lang :: "regex \<Rightarrow> str set" where
  "lang (Lit l) = {l}"
| "lang (Neg_Plus cs) = {u. u \<noteq> [] \<and> set u \<inter> set cs = {}}"
| "lang (Opt r) = insert [] (lang r)"
| "lang (Seq a b) = {u @ v | u v. u \<in> lang a \<and> v \<in> lang b}"
| "lang (Grp r) = lang r"

text \<open>
  The number of groups of a pattern, and the patterns whose every match fills every
  group: no group lies inside an optional part.
\<close>

primrec ngroups :: "regex \<Rightarrow> nat" where
  "ngroups (Lit l) = 0"
| "ngroups (Neg_Plus cs) = 0"
| "ngroups (Opt r) = ngroups r"
| "ngroups (Seq a b) = ngroups a + ngroups b"
| "ngroups (Grp r) = Suc (ngroups r)"

primrec fixed_groups :: "regex \<Rightarrow> bool" where
  "fixed_groups (Lit l) = True"
| "fixed_groups (Neg_Plus cs) = True"
| "fixed_groups (Opt r) = (ngroups r = 0 \<and> fixed_groups r)"
| "fixed_groups (Seq a b) = (fixed_groups a \<and> fixed_groups b)"
| "fixed_groups (Grp r) = fixed_groups r"

text \<open>
  The specification's shape of a URL for the parser,
  \<open>[scheme://][www.]github.com/<owner>/<repo>[.git]\<close>, at the start of the text, whatever
  follows: the owner without \<open>/\<close>, the repository without \<open>/\<close> and \<open>.\<close>.
\<close>

definition matches_repo_pattern :: "str \<Rightarrow> bool" where
  "matches_repo_pattern url \<longleftrightarrow>
     (\<exists>scheme www owner' repo' git rest.
        url = scheme @ www @ cps ''github.com/'' @ owner' @ cps ''/'' @ repo' @ git @ rest
        \<and> scheme \<in> {[], cps ''http://'', cps ''https://''}
        \<and> www \<in> {[], cps ''www.''}
        \<and> owner' \<noteq> [] \<and> cp (CHR ''/'') \<notin> set owner'
        \<and> repo' \<noteq> [] \<and> cp (CHR ''/'') \<notin> set repo' \<and> cp (CHR ''.'') \<notin> set repo'
        \<and> git \<in> {[], cps ''.git''})"

text \<open>
  The specification's repository URL inside a query: a scheme, the host, an owner and a
  repository, neither with \<open>/\<close> or a white space character (of Unicode: the ASCII controls
  and space that separate text, the no-break spaces, the spaces of the general
  punctuation block, the line and paragraph separators and the ideographic space). The
  host is compared as it stands, or, with \<open>ci\<close>, without regard to case.
\<close>

definition white_space :: "nat \<Rightarrow> bool" where
  "white_space c \<longleftrightarrow>
     (9 \<le> c \<and> c \<le> 13) \<or> (28 \<le> c \<and> c \<le> 32) \<or> c = 0x85 \<or> c = 0xA0 \<or> c = 0x1680
     \<or> (0x2000 \<le> c \<and> c \<le> 0x200A) \<or> c = 0x2028 \<or> c = 0x2029 \<or> c = 0x202F
     \<or> c = 0x205F \<or> c = 0x3000"

definition url_segment :: "str \<Rightarrow> bool" where
  "url_segment s \<longleftrightarrow> s \<noteq> [] \<and> (\<forall>c \<in> set s. c \<noteq> cp (CHR ''/'') \<and> \<not> white_space c)"

definition repo_url_text :: "bool \<Rightarrow> str \<Rightarrow> bool" where
  "repo_url_text ci u \<longleftrightarrow>
     (\<exists>scheme host owner' repo'.
        u = scheme @ cps ''://'' @ host @ cps ''/'' @ owner' @ cps ''/'' @ repo'
        \<and> scheme \<in> {cps ''http'', cps ''https''}
        \<and> (if ci then lower host else host) \<in> {cps ''github.com'', cps ''www.github.com''}
        \<and> url_segment owner' \<and> url_segment repo')"

text \<open>The two-part rule of the specification's intent classifier.\<close>

definition spec_listing :: "bool \<Rightarrow> str \<Rightarrow> bool" where
  "spec_listing ci q \<longleftrightarrow>
     (\<exists>u. sublist u q \<and> repo_url_text ci u)
     \<and> sublist (cps ''github'') (lower q)
     \<and> (sublist (cps ''list'') (lower q) \<or> sublist (cps ''files'') (lower q))"

text \<open>An upstream listing call that fails, and the reason the upstream gives.\<close>

definition upstream_fails :: "http_result \<Rightarrow> bool" where
  "upstream_fails r \<longleftrightarrow>
     (case r of Raised e \<Rightarrow> True | Response status_code body \<Rightarrow> \<not> (200 \<le> status_code \<and> status_code < 300))"

definition reported_reason :: "http_result \<Rightarrow> str option" where
  "reported_reason r =
     (case r of
        Raised e \<Rightarrow> Some e
      | Response status_code (Inl e) \<Rightarrow> None
      | Response status_code (Inr (Object d)) \<Rightarrow> map_of d (cps ''message'')
      | Response status_code (Inr (Array es)) \<Rightarrow> None)"

text \<open>The URL that \<open>list_github_repo_files\<close> requests for the root of a repository.\<close>

definition contents_url :: "repo_info \<Rightarrow> str" where
  "contents_url ri = cps ''https://api.github.com/repos/'' @ owner ri @ cps ''/'' @ repo ri @ cps ''/contents/''"

section \<open>Sample inputs\<close>

definition acme_request :: context_request where
  "acme_request =
     \<lparr>query_text = cps ''list files from https://github.com/acme/widget'',
      user_id = None, session_id = None, additional_context = None\<rparr>"

definition hello_request :: context_request where
  "hello_request =
     \<lparr>query_text = cps ''hello'', user_id = None, session_id = None, additional_context = None\<rparr>"

definition acme_widget :: repo_info where
  "acme_widget = \<lparr>owner = cps ''acme'', repo = cps ''widget''\<rparr>"

text \<open>Both backends unreachable.\<close>

definition down_world :: world where
  "down_world =
     \<lparr>github_get = (\<lambda>url. Raised (cps ''connection refused'')),
      llama_post = (\<lambda>prompt. Raised (cps ''connection refused''))\<rparr>"

text \<open>The element that the model path gives when the model cannot be reached.\<close>

definition down_element :: context_element where
  "down_element =
     \<lparr>content = cps ''Error: connection refused'', source = cps ''llama_model'', relevance_score = 0.9\<rparr>"

text \<open>GitHub answers 404 with its usual body; the model answers.\<close>

definition not_found_world :: world where
  "not_found_world =
     \<lparr>github_get = (\<lambda>url. Response 404 (Inr (Object [(cps ''message'', cps ''Not Found'')]))),
      llama_post = (\<lambda>prompt. Response 200 (Inr (Object [(cps ''response'', cps ''42'')])))\<rparr>"

text \<open>
  GitHub answers 200 with a JSON object, the description of a single file, in place of
  a list of entries; the model answers.
\<close>

definition file_object_world :: world where
  "file_object_world =
     \<lparr>github_get =
        (\<lambda>url. Response 200
           (Inr (Object [(cps ''name'', cps ''README.md''), (cps ''path'', cps ''README.md''),
                         (cps ''type'', cps ''file'')]))),
      llama_post = (\<lambda>prompt. Response 200 (Inr (Object [(cps ''response'', cps ''42'')])))\<rparr>"

text \<open>A repository with a file and a directory, in this order; a symbolic link.\<close>

definition sample_entries :: "entry list" where
  "sample_entries =
     [\<lparr>name = cps ''readme.md'', path = cps ''readme.md'', type = cps ''file''\<rparr>,
      \<lparr>name = cps ''src'', path = cps ''src'', type = cps ''dir''\<rparr>]"

definition link_entry :: entry where
  "link_entry = \<lparr>name = cps ''latest'', path = cps ''latest'', type = cps ''symlink''\<rparr>"

definition sample_world :: world where
  "sample_world =
     \<lparr>github_get = (\<lambda>url. Response 200 (Inr (Array sample_entries))),
      llama_post = (\<lambda>prompt. Response 200 (Inr (Object [(cps ''response'', cps ''42'')])))\<rparr>"

definition link_world :: world where
  "link_world =
     \<lparr>github_get = (\<lambda>url. Response 200 (Inr (Array [link_entry]))),
      llama_post = (\<lambda>prompt. Raised (cps ''connection refused''))\<rparr>"

text \<open>The query of the specification's example, and what the listing endpoint may answer.\<close>

definition acme_query :: str where
  "acme_query = cps ''list files from https://github.com/acme/widget''"

text \<open>What the context endpoint answers for a repository that GitHub does not find.\<close>

definition sample_context :: context_response where
  "sample_context =
     \<lparr>context_elements =
        [\<lparr>content = cps ''Error accessing GitHub repository: Not Found'',
          source = cps ''github_api_error'', relevance_score = 0.9\<rparr>],
      metadata = [cps ''processing_time_ms'' \<mapsto> Int_Val 150, cps ''query'' \<mapsto> Str_Val acme_query]\<rparr>"

definition empty_listing :: list_files_response where
  "empty_listing =
     \<lparr>files = [], repository = cps ''widget'', resp_owner = cps ''acme'', success = True,
      message = None\<rparr>"

definition failed_listing :: list_files_response where
  "failed_listing =
     \<lparr>files = [], repository = cps ''widget'', resp_owner = cps ''acme'', success = False,
      message = Some (cps ''Error accessing repository: Not Found'')\<rparr>"

text \<open>What the context endpoint answers for a repository without entries.\<close>

definition empty_context :: context_response where
  "empty_context =
     \<lparr>context_elements =
        [\<lparr>content = cps ''Repository: acme/widget'' @ [0x0A, 0x0A]
                    @ cps ''Files and directories:'' @ [0x0A],
          source = cps ''github_api'', relevance_score = 0.95\<rparr>],
      metadata = [cps ''processing_time_ms'' \<mapsto> Int_Val 150, cps ''query'' \<mapsto> Str_Val acme_query]\<rparr>"

text \<open>Both endpoints report an empty repository.\<close>

definition empty_repo_net :: net where
  "empty_repo_net =
     \<lparr>post_context = (\<lambda>q. Inr empty_context),
      post_list_files = (\<lambda>url. Inr empty_listing)\<rparr>"

text \<open>The listing endpoint reports a failure; the context endpoint answers.\<close>

definition failing_list_net :: net where
  "failing_list_net =
     \<lparr>post_context = (\<lambda>q. Inr sample_context),
      post_list_files = (\<lambda>url. Inr failed_listing)\<rparr>"

text \<open>The listing endpoint reports a failure and the context endpoint cannot be reached.\<close>

definition failing_both_net :: net where
  "failing_both_net =
     \<lparr>post_context = (\<lambda>q. Inl (cps ''timed out'')),
      post_list_files = (\<lambda>url. Inr failed_listing)\<rparr>"

section \<open>Substrings and the matcher\<close>

lemma cps_Nil [simp]: "cps [] = []"
  by (simp add: cps_def)

lemma cps_Cons [simp]: "cps (c # s) = cp c # cps s"
  by (simp add: cps_def)

lemma contains_iff_sublist: "contains sub s \<longleftrightarrow> sublist sub s"
  by (induction s) (auto simp: sublist_Cons_right)

lemma run_iff:
  "s' \<in> set (run cs s) \<longleftrightarrow> (\<exists>u. u \<noteq> [] \<and> set u \<inter> set cs = {} \<and> s = u @ s')"
proof (induction s)
  case Nil
  then show ?case by simp
next
  case (Cons c s)
  show ?case
  proof (cases "c \<in> set cs")
    case True
    then show ?thesis by (auto simp: neq_Nil_conv)
  next
    case False
    have "(\<exists>u. u \<noteq> [] \<and> set u \<inter> set cs = {} \<and> c # s = u @ s')
      \<longleftrightarrow> s' = s \<or> (\<exists>u. u \<noteq> [] \<and> set u \<inter> set cs = {} \<and> s = u @ s')" (is "?L \<longleftrightarrow> ?R")
    proof
      assume ?L
      then obtain u where u: "u \<noteq> []" "set u \<inter> set cs = {}" "c # s = u @ s'" by blast
      then obtain v where v: "u = c # v" "s = v @ s'" by (cases u) auto
      show ?R
      proof (cases "v = []")
        case True with v show ?thesis by simp
      next
        case False
        with u v show ?thesis by auto
      qed
    next
      assume ?R
      then show ?L
      proof
        assume "s' = s"
        with False have "[c] \<noteq> [] \<and> set [c] \<inter> set cs = {} \<and> c # s = [c] @ s'" by simp
        then show ?L by blast
      next
        assume "\<exists>u. u \<noteq> [] \<and> set u \<inter> set cs = {} \<and> s = u @ s'"
        then obtain u where "u \<noteq> []" "set u \<inter> set cs = {}" "s = u @ s'" by blast
        with False have "c # u \<noteq> [] \<and> set (c # u) \<inter> set cs = {} \<and> c # s = (c # u) @ s'" by simp
        then show ?L by blast
      qed
    qed
    with False Cons show ?thesis by auto
  qed
qed

lemma matches_iff:
  "(\<exists>g. (g, s') \<in> set (matches r s)) \<longleftrightarrow> (\<exists>u \<in> lang r. s = u @ s')"
proof (induction r arbitrary: s s')
  case (Lit l)
  show ?case by (auto simp: prefix_def)
next
  case (Neg_Plus cs)
  show ?case using run_iff [of s' cs s] by (auto simp: image_iff)
next
  case (Opt r)
  have "(\<exists>g. (g, s') \<in> set (matches (Opt r) s)) \<longleftrightarrow> (\<exists>g. (g, s') \<in> set (matches r s)) \<or> s' = s"
    by auto
  also have "\<dots> \<longleftrightarrow> (\<exists>u \<in> lang r. s = u @ s') \<or> s' = s" using Opt by simp
  also have "\<dots> \<longleftrightarrow> (\<exists>u \<in> lang (Opt r). s = u @ s')" by auto
  finally show ?case .
next
  case (Seq a b)
  have "(\<exists>g. (g, s') \<in> set (matches (Seq a b) s))
    \<longleftrightarrow> (\<exists>s1. (\<exists>g1. (g1, s1) \<in> set (matches a s)) \<and> (\<exists>g2. (g2, s') \<in> set (matches b s1)))"
    by fastforce
  also have "\<dots> \<longleftrightarrow> (\<exists>s1. (\<exists>u \<in> lang a. s = u @ s1) \<and> (\<exists>v \<in> lang b. s1 = v @ s'))"
    using Seq by simp
  also have "\<dots> \<longleftrightarrow> (\<exists>u \<in> lang (Seq a b). s = u @ s')"
    by fastforce
  finally show ?case .
next
  case (Grp r)
  have "(\<exists>g. (g, s') \<in> set (matches (Grp r) s)) \<longleftrightarrow> (\<exists>g. (g, s') \<in> set (matches r s))"
    by force
  with Grp show ?case by simp
qed

lemma re_match_None_iff: "re_match r s = None \<longleftrightarrow> \<not> (\<exists>u \<in> lang r. prefix u s)"
proof -
  have "re_match r s = None \<longleftrightarrow> matches r s = []"
    by (auto simp: re_match_def split: list.splits)
  also have "\<dots> \<longleftrightarrow> \<not> (\<exists>s' g. (g, s') \<in> set (matches r s))"
    by (cases "matches r s") auto
  also have "\<dots> \<longleftrightarrow> \<not> (\<exists>u \<in> lang r. prefix u s)"
    using matches_iff [of _ r s] by (auto simp: prefix_def)
  finally show ?thesis .
qed

lemma re_search_None_iff: "re_search r s = None \<longleftrightarrow> \<not> (\<exists>u \<in> lang r. sublist u s)"
proof (induction s)
  case Nil
  show ?case by (simp add: re_match_None_iff)
next
  case (Cons c s)
  show ?case
  proof (cases "re_match r (c # s)")
    case None
    then have "re_search r (c # s) = re_search r s" by simp
    moreover from None have "\<not> (\<exists>u \<in> lang r. prefix u (c # s))"
      by (simp add: re_match_None_iff)
    ultimately show ?thesis using Cons by (auto simp: sublist_Cons_right)
  next
    case (Some m)
    then have "re_match r (c # s) \<noteq> None" by simp
    then have "\<exists>u \<in> lang r. prefix u (c # s)" by (simp add: re_match_None_iff)
    with Some show ?thesis by (auto simp: sublist_Cons_right)
  qed
qed


lemma matches_groups:
  "fixed_groups r \<Longrightarrow> (g, s') \<in> set (matches r s) \<Longrightarrow> length g = ngroups r"
proof (induction r arbitrary: g s s')
  case (Seq a b)
  from Seq.prems(2) obtain g1 s1 g2 where
    "(g1, s1) \<in> set (matches a s)" "(g2, s') \<in> set (matches b s1)" "g = g1 @ g2"
    by auto
  with Seq.IH Seq.prems(1) show ?case by simp
qed auto

lemma parse_groups: "(g, s') \<in> set (matches parse_pattern url) \<Longrightarrow> length g = 2"
  using matches_groups [of parse_pattern g s' url] by (simp add: parse_pattern_def)

lemma parse_total: "\<exists>r. parse_github_url url = Inr r"
proof (cases "matches parse_pattern url")
  case Nil
  then show ?thesis by (simp add: parse_github_url_def re_match_def)
next
  case (Cons a ms)
  obtain g rest where a: "a = (g, rest)" by (cases a)
  with Cons have "(g, rest) \<in> set (matches parse_pattern url)" by simp
  then have "length g = 2" by (rule parse_groups)
  with Cons a show ?thesis by (simp add: parse_github_url_def re_match_def group_def)
qed

lemma parse_None_iff_lang:
  "parse_github_url url = Inr None \<longleftrightarrow> \<not> (\<exists>u \<in> lang parse_pattern. prefix u url)"
proof -
  have "parse_github_url url = Inr None \<longleftrightarrow> re_match parse_pattern url = None"
    by (auto simp: parse_github_url_def split: option.splits sum.splits)
  then show ?thesis by (simp add: re_match_None_iff)
qed


lemma lang_scheme:
  "lang (Opt (Seq (Lit (cps ''http'')) (Seq (Opt (Lit (cps ''s''))) (Lit (cps ''://''))))) = {[], cps ''http://'', cps ''https://''}"
  by auto

lemma in_lang_Seq: "x \<in> lang (Seq a b) \<longleftrightarrow> (\<exists>u v. x = u @ v \<and> u \<in> lang a \<and> v \<in> lang b)"
  by auto

lemma lang_SeqI: "u \<in> lang a \<Longrightarrow> v \<in> lang b \<Longrightarrow> u @ v \<in> lang (Seq a b)"
  by auto

lemma in_lang_parse_pattern:
  "x \<in> lang parse_pattern \<longleftrightarrow>
     (\<exists>scheme www owner' repo' git.
        x = scheme @ www @ cps ''github.com/'' @ owner' @ cps ''/'' @ repo' @ git
        \<and> scheme \<in> {[], cps ''http://'', cps ''https://''}
        \<and> www \<in> {[], cps ''www.''}
        \<and> owner' \<noteq> [] \<and> cp (CHR ''/'') \<notin> set owner'
        \<and> repo' \<noteq> [] \<and> cp (CHR ''/'') \<notin> set repo' \<and> cp (CHR ''.'') \<notin> set repo'
        \<and> git \<in> {[], cps ''.git''})" (is "?L \<longleftrightarrow> ?R")
proof
  assume ?L
  then obtain a b c d e f g where x: "x = a @ b @ c @ d @ e @ f @ g"
    and a: "a \<in> lang (Opt (Seq (Lit (cps ''http'')) (Seq (Opt (Lit (cps ''s''))) (Lit (cps ''://'')))))"
    and b: "b \<in> lang (Opt (Lit (cps ''www.'')))"
    and c: "c \<in> lang (Lit (cps ''github.com/''))"
    and d: "d \<in> lang (Grp (Neg_Plus (cps ''/'')))"
    and e: "e \<in> lang (Lit (cps ''/''))"
    and f: "f \<in> lang (Grp (Neg_Plus (cps ''/.'')))"
    and g: "g \<in> lang (Opt (Lit (cps ''.git'')))"
    unfolding parse_pattern_def in_lang_Seq by blast
  from a have a': "a \<in> {[], cps ''http://'', cps ''https://''}" by (simp only: lang_scheme)
  from b have b': "b \<in> {[], cps ''www.''}" by simp
  from c have c': "c = cps ''github.com/''" by simp
  from d have d': "d \<noteq> [] \<and> cp (CHR ''/'') \<notin> set d" by simp
  from e have e': "e = cps ''/''" by simp
  from f have f': "f \<noteq> [] \<and> cp (CHR ''/'') \<notin> set f \<and> cp (CHR ''.'') \<notin> set f" by simp
  from g have g': "g \<in> {[], cps ''.git''}" by simp
  from x a' b' c' d' e' f' g' show ?R by blast
next
  assume ?R
  then obtain scheme www owner' repo' git where x: "x = scheme @ www @ cps ''github.com/'' @ owner' @ cps ''/'' @ repo' @ git"
    and a: "scheme \<in> {[], cps ''http://'', cps ''https://''}"
    and b: "www \<in> {[], cps ''www.''}"
    and d: "owner' \<noteq> []" "cp (CHR ''/'') \<notin> set owner'"
    and f: "repo' \<noteq> []" "cp (CHR ''/'') \<notin> set repo'" "cp (CHR ''.'') \<notin> set repo'"
    and g: "git \<in> {[], cps ''.git''}"
    by blast
  from a have a': "scheme \<in> lang (Opt (Seq (Lit (cps ''http'')) (Seq (Opt (Lit (cps ''s''))) (Lit (cps ''://'')))))"
    by (simp only: lang_scheme)
  from b have b': "www \<in> lang (Opt (Lit (cps ''www.'')))" by simp
  have c': "cps ''github.com/'' \<in> lang (Lit (cps ''github.com/''))" by simp
  from d have d': "owner' \<in> lang (Grp (Neg_Plus (cps ''/'')))" by simp
  have e': "cps ''/'' \<in> lang (Lit (cps ''/''))" by simp
  from f have f': "repo' \<in> lang (Grp (Neg_Plus (cps ''/.'')))" by simp
  from g have g': "git \<in> lang (Opt (Lit (cps ''.git'')))" by simp
  show ?L unfolding parse_pattern_def x
    by (intro lang_SeqI a' b' c' d' e' f' g')
qed

lemma lang_parse_pattern:
  "(\<exists>u \<in> lang parse_pattern. prefix u url) \<longleftrightarrow> matches_repo_pattern url" (is "?L \<longleftrightarrow> ?R")
proof
  assume ?L
  then obtain u rest where u: "u \<in> lang parse_pattern" and url: "url = u @ rest"
    by (auto simp: prefix_def)
  from u obtain scheme www owner' repo' git where
    "u = scheme @ www @ cps ''github.com/'' @ owner' @ cps ''/'' @ repo' @ git"
    and *: "scheme \<in> {[], cps ''http://'', cps ''https://''}" "www \<in> {[], cps ''www.''}"
      "owner' \<noteq> []" "cp (CHR ''/'') \<notin> set owner'"
      "repo' \<noteq> []" "cp (CHR ''/'') \<notin> set repo'" "cp (CHR ''.'') \<notin> set repo'"
      "git \<in> {[], cps ''.git''}"
    unfolding in_lang_parse_pattern by blast
  with url have "url = scheme @ www @ cps ''github.com/'' @ owner' @ cps ''/'' @ repo' @ git @ rest"
    by simp
  with * show ?R unfolding matches_repo_pattern_def by blast
next
  assume ?R
  then obtain scheme www owner' repo' git rest where
    url: "url = scheme @ www @ cps ''github.com/'' @ owner' @ cps ''/'' @ repo' @ git @ rest"
    and *: "scheme \<in> {[], cps ''http://'', cps ''https://''}" "www \<in> {[], cps ''www.''}"
      "owner' \<noteq> []" "cp (CHR ''/'') \<notin> set owner'"
      "repo' \<noteq> []" "cp (CHR ''/'') \<notin> set repo'" "cp (CHR ''.'') \<notin> set repo'"
      "git \<in> {[], cps ''.git''}"
    unfolding matches_repo_pattern_def by blast
  let ?u = "scheme @ www @ cps ''github.com/'' @ owner' @ cps ''/'' @ repo' @ git"
  from * have "?u \<in> lang parse_pattern" unfolding in_lang_parse_pattern by blast
  moreover from url have "prefix ?u url" by (simp add: prefix_def)
  ultimately show ?L by blast
qed

lemma parse_None_iff: "parse_github_url url = Inr None \<longleftrightarrow> \<not> matches_repo_pattern url"
  by (simp only: parse_None_iff_lang lang_parse_pattern)

section \<open>The URL parser: claim C4\<close>

text \<open>
  C4. \<open>parse_github_url\<close> returns on every text and raises on none. On a text that does
  not start with the shape \<open>[scheme://][www.]github.com/<owner>/<repo>[.git]\<close> it returns
  \<open>None\<close>. On \<open>https://github.com/acme/widget\<close> it returns the owner \<open>acme\<close> and the
  repository \<open>widget\<close>, and the same on \<open>https://github.com/acme/widget.git\<close>.
\<close>

theorem url_parser_total_and_strips_git:
  "(\<exists>r. parse_github_url url = Inr r)
   \<and> (\<not> matches_repo_pattern url \<longrightarrow> parse_github_url url = Inr None)
   \<and> parse_github_url (cps ''https://github.com/acme/widget'')
       = Inr (Some \<lparr>owner = cps ''acme'', repo = cps ''widget''\<rparr>)
   \<and> parse_github_url (cps ''https://github.com/acme/widget.git'')
       = Inr (Some \<lparr>owner = cps ''acme'', repo = cps ''widget''\<rparr>)"
proof (intro conjI)
  show "\<exists>r. parse_github_url url = Inr r" by (rule parse_total)
  show "\<not> matches_repo_pattern url \<longrightarrow> parse_github_url url = Inr None"
    by (simp add: parse_None_iff)
  show "parse_github_url (cps ''https://github.com/acme/widget'')
       = Inr (Some \<lparr>owner = cps ''acme'', repo = cps ''widget''\<rparr>)"
    by (simp add: parse_github_url_def re_match_def parse_pattern_def group_def)
  show "parse_github_url (cps ''https://github.com/acme/widget.git'')
       = Inr (Some \<lparr>owner = cps ''acme'', repo = cps ''widget''\<rparr>)"
    by (simp add: parse_github_url_def re_match_def parse_pattern_def group_def)
qed

theorem url_parser_total_and_strips_git_witness:
  "\<not> matches_repo_pattern (cps ''ftp://example.org/acme/widget'')
   \<and> parse_github_url (cps ''ftp://example.org/acme/widget'') = Inr None"
proof -
  have "parse_github_url (cps ''ftp://example.org/acme/widget'') = Inr None"
    by (simp add: parse_github_url_def re_match_def parse_pattern_def)
  then have h: "\<not> matches_repo_pattern (cps ''ftp://example.org/acme/widget'')"
    using parse_None_iff by blast
  with url_parser_total_and_strips_git [of "cps ''ftp://example.org/acme/widget''"]
  show ?thesis by blast
qed

section \<open>The intent classifier: claim C1\<close>

lemma github_request_iff:
  "github_request q \<longleftrightarrow>
     sublist (cps ''github'') (lower q) \<and> (sublist (cps ''list'') (lower q) \<or> sublist (cps ''files'') (lower q))"
  by (simp only: github_request_def contains_iff_sublist)

lemma white_space_iff: "white_space c \<longleftrightarrow> c \<in> set whitespace"
proof
  assume "white_space c"
  then consider "9 \<le> c \<and> c \<le> 13" | "28 \<le> c \<and> c \<le> 32" | "0x2000 \<le> c \<and> c \<le> 0x200A"
    | "c \<in> {0x85, 0xA0, 0x1680, 0x2028, 0x2029, 0x202F, 0x205F, 0x3000}"
    by (auto simp: white_space_def)
  then show "c \<in> set whitespace"
  proof cases
    case 1
    then have "c = 9 \<or> c = 10 \<or> c = 11 \<or> c = 12 \<or> c = 13" by arith
    then show ?thesis by (auto simp: whitespace_def)
  next
    case 2
    then have "c = 28 \<or> c = 29 \<or> c = 30 \<or> c = 31 \<or> c = 32" by arith
    then show ?thesis by (auto simp: whitespace_def)
  next
    case 3
    then have "c = 0x2000 \<or> c = 0x2001 \<or> c = 0x2002 \<or> c = 0x2003 \<or> c = 0x2004 \<or> c = 0x2005
      \<or> c = 0x2006 \<or> c = 0x2007 \<or> c = 0x2008 \<or> c = 0x2009 \<or> c = 0x200A" by arith
    then show ?thesis by (auto simp: whitespace_def)
  next
    case 4
    then show ?thesis by (auto simp: whitespace_def)
  qed
next
  assume "c \<in> set whitespace"
  then show "white_space c" by (auto simp: whitespace_def white_space_def)
qed

lemma in_lang_segment: "s \<in> lang (Neg_Plus (cp (CHR ''/'') # whitespace)) \<longleftrightarrow> url_segment s"
  by (auto simp: url_segment_def white_space_iff)

lemma in_lang_url_pattern:
  "x \<in> lang url_pattern \<longleftrightarrow>
     (\<exists>s www owner' repo'.
        x = cps ''http'' @ s @ cps ''://'' @ www @ cps ''github.com/'' @ owner' @ cps ''/'' @ repo'
        \<and> s \<in> {[], cps ''s''} \<and> www \<in> {[], cps ''www.''}
        \<and> url_segment owner' \<and> url_segment repo')" (is "?L \<longleftrightarrow> ?R")
proof
  assume ?L
  then obtain a b c d e f g h where x: "x = a @ b @ c @ d @ e @ f @ g @ h"
    and a: "a \<in> lang (Lit (cps ''http''))"
    and b: "b \<in> lang (Opt (Lit (cps ''s'')))"
    and c: "c \<in> lang (Lit (cps ''://''))"
    and d: "d \<in> lang (Opt (Lit (cps ''www.'')))"
    and e: "e \<in> lang (Lit (cps ''github.com/''))"
    and f: "f \<in> lang (Neg_Plus (cp (CHR ''/'') # whitespace))"
    and g: "g \<in> lang (Lit (cps ''/''))"
    and h: "h \<in> lang (Neg_Plus (cp (CHR ''/'') # whitespace))"
    unfolding url_pattern_def in_lang_Seq by blast
  from a have a': "a = cps ''http''" by simp
  from b have b': "b \<in> {[], cps ''s''}" by simp
  from c have c': "c = cps ''://''" by simp
  from d have d': "d \<in> {[], cps ''www.''}" by simp
  from e have e': "e = cps ''github.com/''" by simp
  from f have f': "url_segment f" by (simp only: in_lang_segment)
  from g have g': "g = cps ''/''" by simp
  from h have h': "url_segment h" by (simp only: in_lang_segment)
  from x a' b' c' d' e' f' g' h' show ?R by blast
next
  assume ?R
  then obtain s www owner' repo' where
    x: "x = cps ''http'' @ s @ cps ''://'' @ www @ cps ''github.com/'' @ owner' @ cps ''/'' @ repo'"
    and b: "s \<in> {[], cps ''s''}" and d: "www \<in> {[], cps ''www.''}"
    and f: "url_segment owner'" and h: "url_segment repo'"
    by blast
  have a': "cps ''http'' \<in> lang (Lit (cps ''http''))" by simp
  from b have b': "s \<in> lang (Opt (Lit (cps ''s'')))" by simp
  have c': "cps ''://'' \<in> lang (Lit (cps ''://''))" by simp
  from d have d': "www \<in> lang (Opt (Lit (cps ''www.'')))" by simp
  have e': "cps ''github.com/'' \<in> lang (Lit (cps ''github.com/''))" by simp
  from f have f': "owner' \<in> lang (Neg_Plus (cp (CHR ''/'') # whitespace))" by (simp only: in_lang_segment)
  have g': "cps ''/'' \<in> lang (Lit (cps ''/''))" by simp
  from h have h': "repo' \<in> lang (Neg_Plus (cp (CHR ''/'') # whitespace))" by (simp only: in_lang_segment)
  show ?L unfolding url_pattern_def x
    by (intro lang_SeqI a' b' c' d' e' f' g' h')
qed

lemma lang_url_pattern: "x \<in> lang url_pattern \<longleftrightarrow> repo_url_text False x" (is "?L \<longleftrightarrow> ?R")
proof
  assume ?L
  then obtain s www owner' repo' where
    x: "x = cps ''http'' @ s @ cps ''://'' @ www @ cps ''github.com/'' @ owner' @ cps ''/'' @ repo'"
    and s: "s \<in> {[], cps ''s''}" and www: "www \<in> {[], cps ''www.''}"
    and seg: "url_segment owner'" "url_segment repo'"
    unfolding in_lang_url_pattern by blast
  from x have "x = (cps ''http'' @ s) @ cps ''://'' @ (www @ cps ''github.com'') @ cps ''/'' @ owner' @ cps ''/'' @ repo'"
    by simp
  moreover from s have "cps ''http'' @ s \<in> {cps ''http'', cps ''https''}" by auto
  moreover from www have "www @ cps ''github.com'' \<in> {cps ''github.com'', cps ''www.github.com''}" by auto
  ultimately show ?R unfolding repo_url_text_def using seg by (simp only: if_False) blast
next
  assume ?R
  then obtain scheme host owner' repo' where
    x: "x = scheme @ cps ''://'' @ host @ cps ''/'' @ owner' @ cps ''/'' @ repo'"
    and scheme: "scheme \<in> {cps ''http'', cps ''https''}"
    and host: "host \<in> {cps ''github.com'', cps ''www.github.com''}"
    and seg: "url_segment owner'" "url_segment repo'"
    unfolding repo_url_text_def by (simp only: if_False) blast
  from scheme obtain s where s: "scheme = cps ''http'' @ s" "s \<in> {[], cps ''s''}" by auto
  from host obtain www where www: "host = www @ cps ''github.com''" "www \<in> {[], cps ''www.''}" by auto
  from x s www have "x = cps ''http'' @ s @ cps ''://'' @ www @ cps ''github.com/'' @ owner' @ cps ''/'' @ repo'"
    by simp
  with s www seg show ?L unfolding in_lang_url_pattern by blast
qed

lemma url_search_iff:
  "re_search url_pattern q \<noteq> None \<longleftrightarrow> (\<exists>u. sublist u q \<and> repo_url_text False u)"
  by (auto simp: re_search_None_iff lang_url_pattern)

lemma listing_intent_iff: "listing_intent q \<longleftrightarrow> spec_listing False q"
  unfolding listing_intent_def spec_listing_def github_request_iff url_search_iff by blast

lemma listing_acme: "listing_intent (cps ''list files from https://github.com/acme/widget'')"
  by (simp add: listing_intent_def github_request_def lower_def lower_char_def
      url_pattern_def re_match_def whitespace_def)

lemma not_listing_tell: "\<not> listing_intent (cps ''tell me about https://github.com/acme/widget'')"
  by (simp add: listing_intent_def github_request_def lower_def lower_char_def)

lemma not_listing_upper: "\<not> listing_intent (cps ''list files from https://GitHub.com/acme/widget'')"
  by (simp add: listing_intent_def github_request_def lower_def lower_char_def
      url_pattern_def re_match_def whitespace_def)


lemma generate_response_generic:
  "\<not> listing_intent q \<Longrightarrow> generate_response n q = generic_response n q"
  by (auto simp: generate_response_def listing_intent_def split: option.splits)

lemma generate_response_listing:
  "listing_intent q \<Longrightarrow>
     \<exists>m. re_search url_pattern q = Some m \<and> generate_response n q = github_response n q (group0 m)"
  by (auto simp: generate_response_def listing_intent_def split: option.splits)

lemma get_context_elements_generic:
  "\<not> listing_intent q \<Longrightarrow>
     get_context_elements w q
       = Inr (llama_elements (query_llama w (prompt_of (if github_request q then 12 else 8) q)))"
  by (auto simp: get_context_elements_def listing_intent_def split: option.splits)

lemma github_elements_source:
  "github_elements w ri = Inr els \<Longrightarrow> e \<in> set els \<Longrightarrow> source e \<in> {cps ''github_api'', cps ''github_api_error''}"
  by (auto simp: github_elements_def Let_def split: if_splits sum.splits json.splits)

lemma get_context_elements_listing:
  assumes "listing_intent q" and "get_context_elements w q = Inr els" and "e \<in> set els"
  shows "source e \<in> {cps ''github_api'', cps ''github_api_error'', cps ''github_url_parser''}"
proof -
  from assms(1) obtain m where m: "github_request q" "re_search url_pattern q = Some m"
    by (auto simp: listing_intent_def)
  obtain r where r: "parse_github_url (group0 m) = Inr r" using parse_total by blast
  show ?thesis
  proof (cases r)
    case None
    with m r assms(2,3) show ?thesis
      by (auto simp: get_context_elements_def invalid_url_elements_def)
  next
    case (Some ri)
    with m r assms(2) have "github_elements w ri = Inr els"
      by (simp add: get_context_elements_def)
    with assms(3) show ?thesis using github_elements_source by blast
  qed
qed

text \<open>
  White space outside ASCII ends a URL as a space does: with U+00A0 in the place of the
  owner, the search finds no URL and the query is a generic one.
\<close>

lemma not_listing_nbsp:
  "github_request (cps ''list files https://github.com/'' @ [0xA0] @ cps ''/widget'')
   \<and> re_search url_pattern (cps ''list files https://github.com/'' @ [0xA0] @ cps ''/widget'')
       = None
   \<and> \<not> listing_intent (cps ''list files https://github.com/'' @ [0xA0] @ cps ''/widget'')"
  by (simp add: listing_intent_def github_request_def lower_def lower_char_def
      url_pattern_def re_match_def whitespace_def)

text \<open>
  C1, as amended. A query is a listing request exactly when (a) it contains a text that
  is a GitHub repository URL, the host compared as it is written, and (b) the lowercased
  query contains \<open>github\<close> and one of \<open>list\<close> and \<open>files\<close>. The client then takes the
  dedicated endpoint and the server the GitHub path; every other query goes to the model.
  \<open>list files from https://github.com/acme/widget\<close> is a listing request and
  \<open>tell me about https://github.com/acme/widget\<close> is not.
\<close>

theorem intent_classifier_matches_host_as_written:
  "(listing_intent q \<longleftrightarrow> spec_listing False q)
   \<and> (\<not> listing_intent q \<longrightarrow> generate_response n q = generic_response n q)
   \<and> (listing_intent q \<longrightarrow>
        (\<exists>m. re_search url_pattern q = Some m
           \<and> generate_response n q = github_response n q (group0 m)))
   \<and> (\<not> listing_intent q \<longrightarrow>
        (\<exists>p. get_context_elements w q = Inr (llama_elements (query_llama w p))))
   \<and> (listing_intent q \<longrightarrow>
        (\<forall>els. get_context_elements w q = Inr els \<longrightarrow>
           (\<forall>e \<in> set els. source e \<noteq> cps ''llama_model'')))
   \<and> listing_intent (cps ''list files from https://github.com/acme/widget'')
   \<and> \<not> listing_intent (cps ''tell me about https://github.com/acme/widget'')"
proof (intro conjI impI allI ballI)
  show "listing_intent q \<longleftrightarrow> spec_listing False q" by (rule listing_intent_iff)
  show "generate_response n q = generic_response n q" if "\<not> listing_intent q"
    using that by (rule generate_response_generic)
  show "\<exists>m. re_search url_pattern q = Some m
           \<and> generate_response n q = github_response n q (group0 m)" if "listing_intent q"
    using that by (rule generate_response_listing)
  show "\<exists>p. get_context_elements w q = Inr (llama_elements (query_llama w p))"
    if "\<not> listing_intent q"
    using get_context_elements_generic [OF that] by blast
  show "source e \<noteq> cps ''llama_model''"
    if "listing_intent q" "get_context_elements w q = Inr els" "e \<in> set els" for els e
    using get_context_elements_listing [OF that] by auto
  show "listing_intent (cps ''list files from https://github.com/acme/widget'')"
    by (rule listing_acme)
  show "\<not> listing_intent (cps ''tell me about https://github.com/acme/widget'')"
    by (rule not_listing_tell)
qed

theorem intent_classifier_matches_host_as_written_witness:
  "spec_listing False (cps ''list files from https://github.com/acme/widget'')
   \<and> \<not> spec_listing False (cps ''tell me about https://github.com/acme/widget'')
   \<and> generate_response failing_both_net (cps ''tell me about https://github.com/acme/widget'')
       = generic_response failing_both_net (cps ''tell me about https://github.com/acme/widget'')
   \<and> (\<exists>p. get_context_elements down_world (cps ''tell me about https://github.com/acme/widget'')
            = Inr (llama_elements (query_llama down_world p)))"
  using intent_classifier_matches_host_as_written
          [of "cps ''list files from https://github.com/acme/widget''" failing_both_net down_world]
        intent_classifier_matches_host_as_written
          [of "cps ''tell me about https://github.com/acme/widget''" failing_both_net down_world]
  by blast

lemma sublist_upper: "sublist (cps ''https://GitHub.com/acme/widget'') (cps ''list files from https://GitHub.com/acme/widget'')"
  unfolding contains_iff_sublist [symmetric] by simp

lemma repo_url_text_upper: "repo_url_text True (cps ''https://GitHub.com/acme/widget'')"
proof -
  have "cps ''https://GitHub.com/acme/widget'' = cps ''https'' @ cps ''://'' @ cps ''GitHub.com'' @ cps ''/'' @ cps ''acme'' @ cps ''/'' @ cps ''widget''"
    by simp
  moreover have "lower (cps ''GitHub.com'') \<in> {cps ''github.com'', cps ''www.github.com''}"
    by (simp add: lower_def lower_char_def)
  moreover have "url_segment (cps ''acme'')" "url_segment (cps ''widget'')"
    by (simp_all add: url_segment_def white_space_def)
  moreover have "cps ''https'' \<in> {cps ''http'', cps ''https''}" by simp
  ultimately show ?thesis unfolding repo_url_text_def by (simp only: if_True) blast
qed

text \<open>
  C1 as stated, with the host compared without regard to case, fails on a query whose URL
  is written \<open>GitHub.com\<close>: the rule of the specification holds and the program takes the
  query for a generic one.
\<close>

theorem intent_classifier_counterexample:
  "spec_listing True (cps ''list files from https://GitHub.com/acme/widget'')
   \<and> \<not> listing_intent (cps ''list files from https://GitHub.com/acme/widget'')
   \<and> generate_response failing_both_net (cps ''list files from https://GitHub.com/acme/widget'')
       = generic_response failing_both_net (cps ''list files from https://GitHub.com/acme/widget'')"
proof -
  have "sublist (cps ''github'') (lower (cps ''list files from https://GitHub.com/acme/widget''))"
    and "sublist (cps ''list'') (lower (cps ''list files from https://GitHub.com/acme/widget''))"
    unfolding contains_iff_sublist [symmetric] by (simp_all add: lower_def lower_char_def)
  with sublist_upper repo_url_text_upper
  have "spec_listing True (cps ''list files from https://GitHub.com/acme/widget'')"
    unfolding spec_listing_def by blast
  moreover note not_listing_upper
  moreover have "generate_response failing_both_net (cps ''list files from https://GitHub.com/acme/widget'')
       = generic_response failing_both_net (cps ''list files from https://GitHub.com/acme/widget'')"
    using not_listing_upper by (rule generate_response_generic)
  ultimately show ?thesis by blast
qed

section \<open>The client's fallback: claims C2 and C6\<close>

lemma search_acme:
  "re_search url_pattern acme_query
     = Some \<lparr>group0 = cps ''https://github.com/acme/widget'', groups = []\<rparr>"
  by (simp add: acme_query_def url_pattern_def re_match_def whitespace_def)

lemma listing_acme_query: "listing_intent acme_query"
  using listing_acme by (simp only: acme_query_def)

lemma generate_response_github:
  "listing_intent q \<Longrightarrow> re_search url_pattern q = Some m \<Longrightarrow>
     generate_response n q = github_response n q (group0 m)"
  by (simp add: generate_response_def listing_intent_def)

lemma apologies_differ: "apology_list @ x \<noteq> apology_generic @ y"
  by (simp add: apology_list_def apology_generic_def)

text \<open>
  C2, as amended. For a listing request, when the dedicated call reports a failure
  (\<open>success\<close> false or missing) the client makes the generic context call and, when that
  call returns a response with at least one element, returns the content of the first
  element. When the dedicated call reports success with an empty list of files, the
  client makes no second call and returns the message that the repository appears to be
  empty.
\<close>

theorem fallback_on_reported_failure:
  assumes "listing_intent q" and "re_search url_pattern q = Some m"
  shows "(\<not> get_success (list_github_files n (group0 m))
            \<and> client_get_context n q = Context_Ok ctx \<and> context_elements ctx \<noteq> []
          \<longrightarrow> generate_response n q = content (context_elements ctx ! 0))
       \<and> (list_github_files n (group0 m) = List_Ok r \<and> success r \<and> files r = []
          \<longrightarrow> generate_response n q
                = cps ''The repository '' @ resp_owner r @ cps ''/'' @ repository r
                  @ cps '' appears to be empty.'')"
proof (intro conjI impI)
  assume "\<not> get_success (list_github_files n (group0 m))
            \<and> client_get_context n q = Context_Ok ctx \<and> context_elements ctx \<noteq> []"
  then show "generate_response n q = content (context_elements ctx ! 0)"
    by (cases "context_elements ctx")
       (simp_all add: generate_response_github [OF assms] github_response_def)
next
  assume "list_github_files n (group0 m) = List_Ok r \<and> success r \<and> files r = []"
  then show "generate_response n q
                = cps ''The repository '' @ resp_owner r @ cps ''/'' @ repository r
                  @ cps '' appears to be empty.''"
    by (simp add: generate_response_github [OF assms] github_response_def)
qed

theorem fallback_on_reported_failure_witness:
  "listing_intent acme_query
   \<and> \<not> get_success (list_github_files failing_list_net (cps ''https://github.com/acme/widget''))
   \<and> client_get_context failing_list_net acme_query = Context_Ok sample_context
   \<and> generate_response failing_list_net acme_query
       = cps ''Error accessing GitHub repository: Not Found''
   \<and> list_github_files empty_repo_net (cps ''https://github.com/acme/widget'') = List_Ok empty_listing
   \<and> generate_response empty_repo_net acme_query
       = cps ''The repository acme/widget appears to be empty.''"
proof -
  have a: "\<not> get_success (list_github_files failing_list_net (cps ''https://github.com/acme/widget''))"
    by (simp add: list_github_files_def failing_list_net_def failed_listing_def)
  have b: "client_get_context failing_list_net acme_query = Context_Ok sample_context"
    by (simp add: client_get_context_def failing_list_net_def)
  have c: "context_elements sample_context \<noteq> []"
    "content (context_elements sample_context ! 0) = cps ''Error accessing GitHub repository: Not Found''"
    by (simp_all add: sample_context_def)
  have d: "list_github_files empty_repo_net (cps ''https://github.com/acme/widget'') = List_Ok empty_listing"
    by (simp add: list_github_files_def empty_repo_net_def)
  have e: "success empty_listing" "files empty_listing = []"
    "cps ''The repository '' @ resp_owner empty_listing @ cps ''/'' @ repository empty_listing
       @ cps '' appears to be empty.'' = cps ''The repository acme/widget appears to be empty.''"
    by (simp_all add: empty_listing_def)
  from fallback_on_reported_failure [OF listing_acme_query search_acme,
      of failing_list_net sample_context empty_listing] a b c
  have 1: "generate_response failing_list_net acme_query
       = cps ''Error accessing GitHub repository: Not Found''"
    by simp
  from fallback_on_reported_failure [OF listing_acme_query search_acme,
      of empty_repo_net sample_context empty_listing] d e
  have 2: "generate_response empty_repo_net acme_query
       = cps ''The repository acme/widget appears to be empty.''"
    by simp
  from listing_acme_query a b 1 d 2 show ?thesis by blast
qed

text \<open>
  C2 as stated fails when the dedicated call succeeds with an empty list of files: the
  client answers that the repository appears to be empty, which is not the content of
  the first element that the context call would return.
\<close>

theorem empty_listing_is_not_a_fallback_counterexample:
  "listing_intent acme_query
   \<and> list_github_files empty_repo_net (cps ''https://github.com/acme/widget'') = List_Ok empty_listing
   \<and> success empty_listing \<and> files empty_listing = []
   \<and> client_get_context empty_repo_net acme_query = Context_Ok empty_context
   \<and> content (context_elements empty_context ! 0)
       = cps ''Repository: acme/widget'' @ [0x0A, 0x0A] @ cps ''Files and directories:''
         @ [0x0A]
   \<and> generate_response empty_repo_net acme_query
       = cps ''The repository acme/widget appears to be empty.''
   \<and> generate_response empty_repo_net acme_query
       \<noteq> content (context_elements empty_context ! 0)"
proof -
  have "generate_response empty_repo_net acme_query
       = github_response empty_repo_net acme_query (cps ''https://github.com/acme/widget'')"
    using generate_response_github [OF listing_acme_query search_acme] by simp
  also have "\<dots> = cps ''The repository acme/widget appears to be empty.''"
    by (simp add: github_response_def list_github_files_def empty_repo_net_def empty_listing_def)
  finally have g: "generate_response empty_repo_net acme_query
       = cps ''The repository acme/widget appears to be empty.''" .
  moreover have "list_github_files empty_repo_net (cps ''https://github.com/acme/widget'') = List_Ok empty_listing"
    by (simp add: list_github_files_def empty_repo_net_def)
  moreover have "success empty_listing" "files empty_listing = []"
    by (simp_all add: empty_listing_def)
  moreover have "client_get_context empty_repo_net acme_query = Context_Ok empty_context"
    by (simp add: client_get_context_def empty_repo_net_def)
  moreover have c: "content (context_elements empty_context ! 0)
       = cps ''Repository: acme/widget'' @ [0x0A, 0x0A] @ cps ''Files and directories:''
         @ [0x0A]"
    by (simp add: empty_context_def)
  moreover have "generate_response empty_repo_net acme_query
       \<noteq> content (context_elements empty_context ! 0)"
    by (simp only: g c) simp
  ultimately show ?thesis using listing_acme_query by blast
qed

text \<open>
  C6. For a listing request, when the dedicated call fails and the generic context call
  returns an error, the client returns its apology for the listing followed by the
  message of the dedicated call's result (\<open>Unknown error\<close> when that result carries
  none), and not the apology of the generic branch with the error of the context call.
\<close>

theorem fallback_error_embeds_dedicated_message:
  assumes "listing_intent q" and "re_search url_pattern q = Some m"
    and "\<not> get_success (list_github_files n (group0 m))"
    and "client_get_context n q = Context_Error e"
  shows "generate_response n q = apology_list @ get_message (list_github_files n (group0 m))
       \<and> (\<forall>r msg. list_github_files n (group0 m) = List_Ok r \<and> message r = Some msg
            \<longrightarrow> generate_response n q = apology_list @ msg)
       \<and> generate_response n q \<noteq> apology_generic @ e"
proof -
  have g: "generate_response n q = apology_list @ get_message (list_github_files n (group0 m))"
    using assms(3,4) by (simp add: generate_response_github [OF assms(1,2)] github_response_def)
  then show ?thesis by (auto simp: apologies_differ)
qed

theorem fallback_error_embeds_dedicated_message_witness:
  "listing_intent acme_query
   \<and> client_get_context failing_both_net acme_query = Context_Error (cps ''timed out'')
   \<and> generate_response failing_both_net acme_query
       = apology_list @ cps ''Error accessing repository: Not Found''
   \<and> generate_response failing_both_net acme_query \<noteq> apology_generic @ cps ''timed out''"
proof -
  have a: "\<not> get_success (list_github_files failing_both_net (cps ''https://github.com/acme/widget''))"
    by (simp add: list_github_files_def failing_both_net_def failed_listing_def)
  have b: "client_get_context failing_both_net acme_query = Context_Error (cps ''timed out'')"
    by (simp add: client_get_context_def failing_both_net_def)
  have c: "get_message (list_github_files failing_both_net (cps ''https://github.com/acme/widget''))
       = cps ''Error accessing repository: Not Found''"
    by (simp add: list_github_files_def failing_both_net_def failed_listing_def)
  have s: "group0 \<lparr>group0 = cps ''https://github.com/acme/widget'', groups = []\<rparr>
       = cps ''https://github.com/acme/widget''" by simp
  from fallback_error_embeds_dedicated_message [OF listing_acme_query search_acme, of failing_both_net "cps ''timed out''"]
    a b c s
  have "generate_response failing_both_net acme_query = apology_list @ cps ''Error accessing repository: Not Found''"
    and "generate_response failing_both_net acme_query \<noteq> apology_generic @ cps ''timed out''"
    by simp_all
  with listing_acme_query b show ?thesis by blast
qed

section \<open>The listing in the context response: claims C7 and C10\<close>

lemma context_loop_eq:
  "context_loop items (file_list, directory_list)
     = (file_list @ map (\<lambda>item. file_marker @ name item) (filter (\<lambda>item. type item = cps ''file'') items),
        directory_list @ map (\<lambda>item. folder_marker @ name item) (filter (\<lambda>item. type item \<noteq> cps ''file'') items))"
  by (induction items arbitrary: file_list directory_list) simp_all

lemma context_items_Array:
  "context_items (Array items)
     = Inr (map (\<lambda>item. folder_marker @ name item) (filter (\<lambda>item. type item \<noteq> cps ''file'') items)
            @ map (\<lambda>item. file_marker @ name item) (filter (\<lambda>item. type item = cps ''file'') items))"
  by (simp add: context_items_def context_loop_eq)

lemma list_files_loop_eq:
  "list_files_loop items file_list
     = file_list @ map (\<lambda>item. (if type item = cps ''dir'' then folder_marker else file_marker) @ path item) items"
  by (induction items arbitrary: file_list) (simp_all add: Let_def)

lemma list_github_repo_files_url:
  "list_github_repo_files w (owner ri) (repo ri) []
     = (case github_get w (contents_url ri) of
           Raised e \<Rightarrow> Object [(cps ''error'', e)]
         | Response status_code body \<Rightarrow>
             if status_code = 200 then
               (case body of
                  Inl e \<Rightarrow> Object [(cps ''error'', e)]
                | Inr contents \<Rightarrow> contents)
             else
               (case body of
                  Inl e \<Rightarrow> Object [(cps ''error'', e)]
                | Inr (Object d) \<Rightarrow>
                    Object [(cps ''error'',
                      case map_of d (cps ''message'') of
                        Some m \<Rightarrow> m
                      | None \<Rightarrow> cps ''Error: Status code '' @ str_nat status_code)]
                | Inr (Array _) \<Rightarrow> Object [(cps ''error'', no_get)]))"
  by (simp add: list_github_repo_files_def contents_url_def)

lemma listing_ok:
  "github_get w (contents_url ri) = Response 200 (Inr (Array items)) \<Longrightarrow>
     list_github_repo_files w (owner ri) (repo ri) [] = Array items"
  by (simp add: list_github_repo_files_url)

lemma github_elements_ok:
  assumes "github_get w (contents_url ri) = Response 200 (Inr (Array items))"
  shows "github_elements w ri
     = Inr [\<lparr>content =
               cps ''Repository: '' @ owner ri @ cps ''/'' @ repo ri @ [0x0A, 0x0A]
               @ cps ''Files and directories:'' @ [0x0A]
               @ join [0x0A]
                   (map (\<lambda>item. folder_marker @ name item) (filter (\<lambda>item. type item \<noteq> cps ''file'') items)
                    @ map (\<lambda>item. file_marker @ name item) (filter (\<lambda>item. type item = cps ''file'') items)),
             source = cps ''github_api'', relevance_score = 0.95\<rparr>]"
  by (simp add: github_elements_def listing_ok [OF assms] context_items_Array)

lemma parse_acme_url: "parse_github_url (cps ''https://github.com/acme/widget'') = Inr (Some acme_widget)"
  by (simp add: parse_github_url_def re_match_def parse_pattern_def group_def acme_widget_def)

lemma get_context_elements_github:
  "github_request q \<Longrightarrow> re_search url_pattern q = Some m \<Longrightarrow>
   parse_github_url (group0 m) = Inr (Some ri) \<Longrightarrow>
     get_context_elements w q = github_elements w ri"
  by (simp add: get_context_elements_def)

lemma acme_elements: "get_context_elements w acme_query = github_elements w acme_widget"
proof -
  have "github_request acme_query" using listing_acme_query by (simp add: listing_intent_def)
  moreover note search_acme
  moreover have "parse_github_url (group0 \<lparr>group0 = cps ''https://github.com/acme/widget'', groups = []\<rparr>) = Inr (Some acme_widget)"
    using parse_acme_url by simp
  ultimately show ?thesis by (rule get_context_elements_github)
qed

lemma sample_world_get: "github_get sample_world (contents_url acme_widget) = Response 200 (Inr (Array sample_entries))"
  by (simp add: sample_world_def)

text \<open>
  C7. When the upstream contents call returns a list of entries, the content of the
  context element is the header followed by one line for each entry: first the entries
  that get the folder marker, then the entries that get the file marker, each group in
  the order of the upstream list. For the file \<open>readme.md\<close> followed by the directory
  \<open>src\<close>, the line of \<open>src\<close> comes before the line of \<open>readme.md\<close>.
\<close>

theorem context_lists_directories_before_files:
  assumes "github_get w (contents_url ri) = Response 200 (Inr (Array items))"
  shows "(\<exists>lines. context_items (list_github_repo_files w (owner ri) (repo ri) []) = Inr lines
          \<and> lines = map (\<lambda>item. folder_marker @ name item) (filter (\<lambda>item. type item \<noteq> cps ''file'') items)
                   @ map (\<lambda>item. file_marker @ name item) (filter (\<lambda>item. type item = cps ''file'') items)
          \<and> github_elements w ri
              = Inr [\<lparr>content =
                        cps ''Repository: '' @ owner ri @ cps ''/'' @ repo ri @ [0x0A, 0x0A]
                        @ cps ''Files and directories:'' @ [0x0A] @ join [0x0A] lines,
                      source = cps ''github_api'', relevance_score = 0.95\<rparr>])
     \<and> context_items (Array sample_entries)
         = Inr [folder_marker @ cps ''src'', file_marker @ cps ''readme.md'']"
  by (simp add: listing_ok [OF assms] github_elements_ok [OF assms] context_items_Array
      sample_entries_def)

theorem context_lists_directories_before_files_witness:
  "github_get sample_world (contents_url acme_widget) = Response 200 (Inr (Array sample_entries))
   \<and> get_context_elements sample_world acme_query
       = Inr [\<lparr>content =
                 cps ''Repository: acme/widget'' @ [0x0A, 0x0A] @ cps ''Files and directories:''
                 @ [0x0A] @ folder_marker @ cps ''src'' @ [0x0A] @ file_marker @ cps ''readme.md'',
               source = cps ''github_api'', relevance_score = 0.95\<rparr>]"
proof -
  from context_lists_directories_before_files [OF sample_world_get]
  have "github_elements sample_world acme_widget
          = Inr [\<lparr>content =
                    cps ''Repository: '' @ owner acme_widget @ cps ''/'' @ repo acme_widget
                    @ [0x0A, 0x0A] @ cps ''Files and directories:'' @ [0x0A]
                    @ join [0x0A]
                        (map (\<lambda>item. folder_marker @ name item)
                           (filter (\<lambda>item. type item \<noteq> cps ''file'') sample_entries)
                         @ map (\<lambda>item. file_marker @ name item)
                           (filter (\<lambda>item. type item = cps ''file'') sample_entries)),
                  source = cps ''github_api'', relevance_score = 0.95\<rparr>]"
    by blast
  then have "github_elements sample_world acme_widget
       = Inr [\<lparr>content =
                 cps ''Repository: acme/widget'' @ [0x0A, 0x0A] @ cps ''Files and directories:''
                 @ [0x0A] @ folder_marker @ cps ''src'' @ [0x0A] @ file_marker @ cps ''readme.md'',
               source = cps ''github_api'', relevance_score = 0.95\<rparr>]"
    by (simp add: sample_entries_def acme_widget_def)
  with sample_world_get show ?thesis by (simp only: acme_elements) 
qed

lemma markers_differ: "folder_marker \<noteq> file_marker"
  by (simp add: folder_marker_def file_marker_def)

lemma list_files_ok:
  assumes "github_get w (contents_url ri) = Response 200 (Inr (Array items))"
    and "parse_github_url repo_url = Inr (Some ri)"
  shows "list_files w repo_url
     = Inr \<lparr>files = map (\<lambda>item. (if type item = cps ''dir'' then folder_marker else file_marker) @ path item) items,
            repository = repo ri, resp_owner = owner ri, success = True, message = None\<rparr>"
  by (simp add: list_files_def assms(2) listing_ok [OF assms(1)] list_files_loop_eq)

lemma context_items_marker:
  "context_items (Array items)
     = Inr (map (\<lambda>item. (if type item = cps ''file'' then file_marker else folder_marker) @ name item)
              (filter (\<lambda>item. type item \<noteq> cps ''file'') items @ filter (\<lambda>item. type item = cps ''file'') items))"
  by (simp add: context_items_Array cong: map_cong)

text \<open>
  C10. The context endpoint gives an entry the folder marker exactly when its type is
  not \<open>file\<close>; the listing endpoint gives an entry the folder marker exactly when its
  type is \<open>dir\<close>. An entry whose type is neither \<open>file\<close> nor \<open>dir\<close> therefore gets the
  folder marker from the context endpoint and the file marker from the listing endpoint.
\<close>

theorem endpoints_mark_other_entries_differently:
  assumes "github_get w (contents_url ri) = Response 200 (Inr (Array items))"
    and "parse_github_url repo_url = Inr (Some ri)"
  shows "context_items (list_github_repo_files w (owner ri) (repo ri) [])
       = Inr (map (\<lambda>item. (if type item = cps ''file'' then file_marker else folder_marker) @ name item)
                (filter (\<lambda>item. type item \<noteq> cps ''file'') items
                 @ filter (\<lambda>item. type item = cps ''file'') items))
     \<and> list_files w repo_url
       = Inr \<lparr>files = map (\<lambda>item. (if type item = cps ''dir'' then folder_marker else file_marker)
                                   @ path item) items,
              repository = repo ri, resp_owner = owner ri, success = True, message = None\<rparr>
     \<and> (\<forall>item. items = [item] \<and> type item \<noteq> cps ''file'' \<and> type item \<noteq> cps ''dir'' \<longrightarrow>
          context_items (list_github_repo_files w (owner ri) (repo ri) [])
            = Inr [folder_marker @ name item]
          \<and> list_files w repo_url
            = Inr \<lparr>files = [file_marker @ path item],
                   repository = repo ri, resp_owner = owner ri, success = True, message = None\<rparr>)
     \<and> folder_marker \<noteq> file_marker"
  by (simp add: listing_ok [OF assms(1)] list_files_ok [OF assms] context_items_marker markers_differ)

lemma link_world_get:
  "github_get link_world (contents_url acme_widget) = Response 200 (Inr (Array [link_entry]))"
  by (simp add: link_world_def)

theorem endpoints_mark_other_entries_differently_witness:
  "type link_entry \<noteq> cps ''file'' \<and> type link_entry \<noteq> cps ''dir''
   \<and> context_items (list_github_repo_files link_world (owner acme_widget) (repo acme_widget) [])
       = Inr [folder_marker @ cps ''latest'']
   \<and> list_files link_world (cps ''https://github.com/acme/widget'')
       = Inr \<lparr>files = [file_marker @ cps ''latest''],
              repository = cps ''widget'', resp_owner = cps ''acme'', success = True, message = None\<rparr>"
proof -
  have t: "type link_entry \<noteq> cps ''file''" "type link_entry \<noteq> cps ''dir''"
    by (simp_all add: link_entry_def)
  from endpoints_mark_other_entries_differently [OF link_world_get parse_acme_url] t
  have "context_items (list_github_repo_files link_world (owner acme_widget) (repo acme_widget) [])
            = Inr [folder_marker @ name link_entry]"
    and "list_files link_world (cps ''https://github.com/acme/widget'')
            = Inr \<lparr>files = [file_marker @ path link_entry],
                   repository = repo acme_widget, resp_owner = owner acme_widget,
                   success = True, message = None\<rparr>"
    by blast+
  then have "context_items (list_github_repo_files link_world (owner acme_widget) (repo acme_widget) [])
       = Inr [folder_marker @ cps ''latest'']"
    and "list_files link_world (cps ''https://github.com/acme/widget'')
       = Inr \<lparr>files = [file_marker @ cps ''latest''],
              repository = cps ''widget'', resp_owner = cps ''acme'', success = True, message = None\<rparr>"
    by (simp_all add: link_entry_def acme_widget_def)
  with t show ?thesis by blast
qed

section \<open>Upstream failures: claim C5\<close>

lemma failing_listing:
  assumes "upstream_fails (github_get w (contents_url ri))"
  shows "\<exists>msg. list_github_repo_files w (owner ri) (repo ri) [] = Object [(cps ''error'', msg)]
           \<and> (\<forall>reason. reported_reason (github_get w (contents_url ri)) = Some reason
                \<longrightarrow> msg = reason)"
proof (cases "github_get w (contents_url ri)")
  case (Raised e)
  then show ?thesis by (simp add: list_github_repo_files_url reported_reason_def)
next
  case (Response status_code body)
  with assms have s: "status_code \<noteq> 200" by (auto simp: upstream_fails_def)
  show ?thesis
  proof (cases body)
    case (Inl e)
    with Response s show ?thesis by (simp add: list_github_repo_files_url reported_reason_def)
  next
    case (Inr j)
    with Response s show ?thesis
      by (cases j) (auto simp: list_github_repo_files_url reported_reason_def split: option.splits)
  qed
qed

lemma github_elements_error:
  "list_github_repo_files w (owner ri) (repo ri) [] = Object [(cps ''error'', msg)] \<Longrightarrow>
     github_elements w ri
       = Inr [\<lparr>content = cps ''Error accessing GitHub repository: '' @ msg,
                source = cps ''github_api_error'', relevance_score = 0.9\<rparr>]"
  by (simp add: github_elements_def)

lemma get_context_of_elements:
  "get_context_elements w (query_text request) = Inr els \<Longrightarrow>
     get_context w request
       = Inr \<lparr>context_elements = els,
              metadata = [cps ''processing_time_ms'' \<mapsto> Int_Val 150,
                          cps ''query'' \<mapsto> Str_Val (query_text request)]\<rparr>"
  by (simp add: get_context_def)

text \<open>
  C5. When the query is a listing request whose URL parses and the upstream listing call
  fails (it raises, or its status is outside 200 to 299), \<open>get_context\<close> raises nothing
  and returns a response whose element has the source \<open>github_api_error\<close> (and not
  \<open>github_api\<close>) and a content that includes the reason the upstream gives: the text of the
  exception, or the \<open>message\<close> of the error body, such as \<open>Not Found\<close>.
\<close>

theorem upstream_failure_becomes_error_element:
  assumes "github_request (query_text request)"
    and "re_search url_pattern (query_text request) = Some m"
    and "parse_github_url (group0 m) = Inr (Some ri)"
    and "upstream_fails (github_get w (contents_url ri))"
  shows "\<exists>el. get_context w request
              = Inr \<lparr>context_elements = [el],
                     metadata = [cps ''processing_time_ms'' \<mapsto> Int_Val 150,
                                 cps ''query'' \<mapsto> Str_Val (query_text request)]\<rparr>
            \<and> source el = cps ''github_api_error'' \<and> source el \<noteq> cps ''github_api''
            \<and> (\<forall>reason. reported_reason (github_get w (contents_url ri)) = Some reason
                 \<longrightarrow> sublist reason (content el))"
proof -
  from failing_listing [OF assms(4)] obtain msg where
    msg: "list_github_repo_files w (owner ri) (repo ri) [] = Object [(cps ''error'', msg)]"
    and reason: "\<forall>reason. reported_reason (github_get w (contents_url ri)) = Some reason
                \<longrightarrow> msg = reason"
    by blast
  let ?el = "\<lparr>content = cps ''Error accessing GitHub repository: '' @ msg,
                source = cps ''github_api_error'', relevance_score = 0.9\<rparr>"
  have "get_context_elements w (query_text request) = Inr [?el]"
    using get_context_elements_github [OF assms(1,2,3)] github_elements_error [OF msg] by simp
  then have "get_context w request
              = Inr \<lparr>context_elements = [?el],
                     metadata = [cps ''processing_time_ms'' \<mapsto> Int_Val 150,
                                 cps ''query'' \<mapsto> Str_Val (query_text request)]\<rparr>"
    by (rule get_context_of_elements)
  moreover have "source ?el = cps ''github_api_error''" "source ?el \<noteq> cps ''github_api''" by simp_all
  moreover have "sublist msg (content ?el)"
    using sublist_appendI [of msg "cps ''Error accessing GitHub repository: ''" "[]"] by simp
  with reason have "\<forall>reason. reported_reason (github_get w (contents_url ri)) = Some reason
                 \<longrightarrow> sublist reason (content ?el)"
    by blast
  ultimately show ?thesis by blast
qed

lemma acme_request_query: "query_text acme_request = acme_query"
  by (simp add: acme_request_def acme_query_def)

theorem upstream_failure_becomes_error_element_witness:
  "upstream_fails (github_get not_found_world (contents_url acme_widget))
   \<and> reported_reason (github_get not_found_world (contents_url acme_widget)) = Some (cps ''Not Found'')
   \<and> (\<exists>el. get_context not_found_world acme_request
              = Inr \<lparr>context_elements = [el],
                     metadata = [cps ''processing_time_ms'' \<mapsto> Int_Val 150,
                                 cps ''query'' \<mapsto> Str_Val acme_query]\<rparr>
          \<and> source el = cps ''github_api_error'' \<and> sublist (cps ''Not Found'') (content el))"
proof -
  have f: "upstream_fails (github_get not_found_world (contents_url acme_widget))"
    by (simp add: upstream_fails_def not_found_world_def)
  have r: "reported_reason (github_get not_found_world (contents_url acme_widget)) = Some (cps ''Not Found'')"
    by (simp add: reported_reason_def not_found_world_def)
  have g: "github_request (query_text acme_request)"
    using listing_acme_query by (simp add: listing_intent_def acme_request_query)
  have s: "re_search url_pattern (query_text acme_request)
             = Some \<lparr>group0 = cps ''https://github.com/acme/widget'', groups = []\<rparr>"
    using search_acme by (simp only: acme_request_query)
  have p: "parse_github_url (group0 \<lparr>group0 = cps ''https://github.com/acme/widget'', groups = []\<rparr>)
             = Inr (Some acme_widget)"
    using parse_acme_url by simp
  from upstream_failure_becomes_error_element [OF g s p f] r
  have "\<exists>el. get_context not_found_world acme_request
              = Inr \<lparr>context_elements = [el],
                     metadata = [cps ''processing_time_ms'' \<mapsto> Int_Val 150,
                                 cps ''query'' \<mapsto> Str_Val acme_query]\<rparr>
          \<and> source el = cps ''github_api_error'' \<and> sublist (cps ''Not Found'') (content el)"
    by (simp only: acme_request_query) blast
  with f r show ?thesis by blast
qed

section \<open>The response of the context endpoint: claims C9, C3 and C8\<close>

lemma github_elements_single: "github_elements w ri = Inr els \<Longrightarrow> length els = 1"
  by (auto simp: github_elements_def Let_def split: if_splits sum.splits json.splits)

lemma get_context_elements_single:
  assumes "get_context_elements w q = Inr els"
  shows "length els = 1"
proof (cases "listing_intent q")
  case False
  from get_context_elements_generic [OF False, of w] assms show ?thesis
    by (auto simp: llama_elements_def)
next
  case True
  then obtain m where m: "github_request q" "re_search url_pattern q = Some m"
    by (auto simp: listing_intent_def)
  obtain r where r: "parse_github_url (group0 m) = Inr r" using parse_total by blast
  show ?thesis
  proof (cases r)
    case None
    with m r assms show ?thesis
      by (auto simp: get_context_elements_def invalid_url_elements_def)
  next
    case (Some ri)
    with m r assms have "github_elements w ri = Inr els"
      by (simp add: get_context_elements_def)
    then show ?thesis by (rule github_elements_single)
  qed
qed

lemma returned_response_shape:
  assumes "get_context w request = Inr resp"
  shows "length (context_elements resp) = 1
       \<and> metadata resp (cps ''query'') = Some (Str_Val (query_text request))
       \<and> metadata resp (cps ''processing_time_ms'') = Some (Int_Val 150)"
proof -
  from assms obtain els where els: "get_context_elements w (query_text request) = Inr els"
    by (auto simp: get_context_def split: sum.splits)
  from get_context_of_elements [OF els] assms
  have resp: "resp = \<lparr>context_elements = els,
              metadata = [cps ''processing_time_ms'' \<mapsto> Int_Val 150,
                          cps ''query'' \<mapsto> Str_Val (query_text request)]\<rparr>"
    by simp
  from els have "length els = 1" by (rule get_context_elements_single)
  with resp show ?thesis by simp
qed

lemma file_object_listing:
  "list_github_repo_files file_object_world (owner acme_widget) (repo acme_widget) []
     = Object [(cps ''name'', cps ''README.md''), (cps ''path'', cps ''README.md''),
               (cps ''type'', cps ''file'')]"
  by (simp add: list_github_repo_files_url file_object_world_def)

text \<open>
  C9. The claim is that every context request, on every code path, gets a response with
  exactly one context element and with the query and the processing time in its
  metadata. Every response that \<open>get_context\<close> returns is of this kind, but it does not
  return one on every path: for a listing request, when the upstream answers the status
  200 with a JSON object that has no \<open>error\<close> key (as the contents call does for a path
  that is a file), the loop over the entries runs over the keys of the object, indexing
  a key by \<open>"type"\<close> raises, and the request ends in an exception.
\<close>

theorem context_request_raises_on_object_body:
  "get_context file_object_world acme_request = Inl TypeError"
proof -
  have "github_elements file_object_world acme_widget = Inl TypeError"
    by (simp add: github_elements_def file_object_listing context_items_def)
  then have "get_context_elements file_object_world (query_text acme_request) = Inl TypeError"
    by (simp only: acme_request_query acme_elements)
  then show ?thesis by (simp add: get_context_def)
qed

text \<open>
  C3, as amended. For a query that is not a listing request (the keywords are missing, or
  no URL is found), the response has a single element, with the source \<open>llama_model\<close>
  and the relevance score 0.9.
\<close>

theorem generic_element_is_tagged_llama_model:
  assumes "\<not> listing_intent (query_text request)"
  shows "\<exists>resp el. get_context w request = Inr resp \<and> context_elements resp = [el]
           \<and> source el = cps ''llama_model'' \<and> relevance_score el = 0.9"
proof -
  let ?q = "query_text request"
  let ?el = "\<lparr>content = query_llama w (prompt_of (if github_request ?q then 12 else 8) ?q),
              source = cps ''llama_model'', relevance_score = 0.9\<rparr>"
  have "get_context_elements w ?q = Inr [?el]"
    using get_context_elements_generic [OF assms, of w] by (simp add: llama_elements_def)
  from get_context_of_elements [OF this] show ?thesis by simp
qed

lemma not_listing_hello: "\<not> listing_intent (query_text hello_request)"
  by (simp add: hello_request_def listing_intent_def github_request_def lower_def lower_char_def)

theorem generic_element_is_tagged_llama_model_witness:
  "\<not> listing_intent (query_text hello_request)
   \<and> (\<exists>resp el. get_context down_world hello_request = Inr resp \<and> context_elements resp = [el]
           \<and> source el = cps ''llama_model'' \<and> relevance_score el = 0.9)"
  using generic_element_is_tagged_llama_model [OF not_listing_hello, of down_world] not_listing_hello
  by blast

lemma hello_elements: "get_context_elements down_world (query_text hello_request) = Inr [down_element]"
  using get_context_elements_generic [OF not_listing_hello, of down_world]
  by (simp add: llama_elements_def query_llama_def down_world_def down_element_def)

text \<open>
  C3 as stated names the source \<open>llm_model\<close>; the element of a generic query carries
  \<open>llama_model\<close>.
\<close>

theorem generic_source_counterexample:
  "\<not> listing_intent (query_text hello_request)
   \<and> get_context down_world hello_request
       = Inr \<lparr>context_elements = [down_element],
              metadata = [cps ''processing_time_ms'' \<mapsto> Int_Val 150,
                          cps ''query'' \<mapsto> Str_Val (query_text hello_request)]\<rparr>
   \<and> source down_element = cps ''llama_model''
   \<and> source down_element \<noteq> cps ''llm_model''"
  using not_listing_hello get_context_of_elements [OF hello_elements]
  by (simp add: down_element_def)

text \<open>
  C8. For a query that is not a listing request, the content of the first element of the
  response is what \<open>query_llama\<close> returned for the prompt, as it is; when the model
  backend answers 200 with a \<open>response\<close> field, the content is that field, unchanged.
\<close>

theorem generic_content_is_model_text:
  assumes "\<not> listing_intent (query_text request)"
  shows "\<exists>resp prompt. get_context w request = Inr resp \<and> context_elements resp \<noteq> []
           \<and> content (context_elements resp ! 0) = query_llama w prompt
           \<and> (\<forall>d t. llama_post w prompt = Response 200 (Inr (Object d))
                     \<and> map_of d (cps ''response'') = Some t
                 \<longrightarrow> content (context_elements resp ! 0) = t)"
proof -
  let ?q = "query_text request"
  let ?p = "prompt_of (if github_request ?q then 12 else 8) ?q"
  let ?el = "\<lparr>content = query_llama w ?p, source = cps ''llama_model'', relevance_score = 0.9\<rparr>"
  let ?resp = "\<lparr>context_elements = [?el],
              metadata = [cps ''processing_time_ms'' \<mapsto> Int_Val 150, cps ''query'' \<mapsto> Str_Val ?q]\<rparr>"
  have "get_context_elements w ?q = Inr [?el]"
    using get_context_elements_generic [OF assms, of w] by (simp add: llama_elements_def)
  from get_context_of_elements [OF this] have "get_context w request = Inr ?resp" .
  moreover have "context_elements ?resp \<noteq> []" by simp
  moreover have "content (context_elements ?resp ! 0) = query_llama w ?p" by simp
  moreover have "\<forall>d t. llama_post w ?p = Response 200 (Inr (Object d))
                     \<and> map_of d (cps ''response'') = Some t
                 \<longrightarrow> content (context_elements ?resp ! 0) = t"
    by (simp add: query_llama_def)
  ultimately show ?thesis by blast
qed

theorem generic_content_is_model_text_witness:
  "\<not> listing_intent (query_text hello_request)
   \<and> (\<exists>resp. get_context not_found_world hello_request = Inr resp
         \<and> context_elements resp \<noteq> []
         \<and> content (context_elements resp ! 0) = cps ''42'')"
proof -
  from generic_content_is_model_text [OF not_listing_hello, of not_found_world]
  obtain resp prompt where r: "get_context not_found_world hello_request = Inr resp"
    "context_elements resp \<noteq> []"
    and t: "\<forall>d t. llama_post not_found_world prompt = Response 200 (Inr (Object d))
                     \<and> map_of d (cps ''response'') = Some t
                 \<longrightarrow> content (context_elements resp ! 0) = t"
    by blast
  have "llama_post not_found_world prompt = Response 200 (Inr (Object [(cps ''response'', cps ''42'')]))"
    by (simp add: not_found_world_def)
  moreover have "map_of [(cps ''response'', cps ''42'')] (cps ''response'') = Some (cps ''42'')" by simp
  ultimately have "content (context_elements resp ! 0) = cps ''42''" using t by blast
  with r not_listing_hello show ?thesis by blast
qed

end
